theory Spec2Isabelle
  imports Complex_Main "HOL-Library.Log_Nat"
begin

section \<open>The demonstration process of \<^verbatim>\<open>demoprocess.py\<close>\<close>

text \<open>
  The class \<^verbatim>\<open>DemoProcess\<close> simulates an external process: a temperature and a
  percentage that walk up and down between two limits, a state name that is drawn at random
  every few ticks, a mode the user selects, and three colour channels that are handed to
  the terminal's colour service.  The object is a record, every method takes the record and
  returns the updated one, and a method that can raise returns an \<open>outcome\<close>.

  Python forbids nothing about attribute names, Isabelle forbids a leading underscore: the
  attributes \<^verbatim>\<open>_temperature_delta\<close>, \<^verbatim>\<open>_state_delay\<close>, \<^verbatim>\<open>_state_count\<close>,
  \<^verbatim>\<open>_percent_delta\<close> and the methods \<^verbatim>\<open>_update_temperature\<close>, \<^verbatim>\<open>_update_percent\<close>,
  \<^verbatim>\<open>_update_state\<close>, \<^verbatim>\<open>_init_demo_color\<close>, \<^verbatim>\<open>_set_demo_color\<close>,
  \<^verbatim>\<open>_update_color\<close> appear here without it.
\<close>

subsection \<open>Enumerations\<close>

datatype DemoStates = Disconnected | Idle | Cycling | Faulted

datatype DemoModes = Disabled | Setup | Test | Run

text \<open>\<^verbatim>\<open>list(DemoStates)\<close> and \<^verbatim>\<open>list(DemoModes)\<close>: the members in definition order.\<close>

definition DemoStates_list :: "DemoStates list" where
  "DemoStates_list = [Disconnected, Idle, Cycling, Faulted]"

definition DemoModes_list :: "DemoModes list" where
  "DemoModes_list = [Disabled, Setup, Test, Run]"

fun DemoStates_name :: "DemoStates \<Rightarrow> string" where
  "DemoStates_name Disconnected = ''Disconnected''"
| "DemoStates_name Idle = ''Idle''"
| "DemoStates_name Cycling = ''Cycling''"
| "DemoStates_name Faulted = ''Faulted''"

fun DemoStates_value :: "DemoStates \<Rightarrow> int" where
  "DemoStates_value Disconnected = 0"
| "DemoStates_value Idle = 1"
| "DemoStates_value Cycling = 2"
| "DemoStates_value Faulted = 3"

fun DemoModes_name :: "DemoModes \<Rightarrow> string" where
  "DemoModes_name Disabled = ''Disabled''"
| "DemoModes_name Setup = ''Setup''"
| "DemoModes_name Test = ''Test''"
| "DemoModes_name Run = ''Run''"

fun DemoModes_value :: "DemoModes \<Rightarrow> int" where
  "DemoModes_value Disabled = 22"
| "DemoModes_value Setup = 44"
| "DemoModes_value Test = 33"
| "DemoModes_value Run = 11"

subsection \<open>Python floats\<close>

text \<open>
  A Python \<^verbatim>\<open>float\<close> is an IEEE 754 binary64 number.  A finite one is kept as the rational
  it stands for (\<open>Fin 0\<close> is \<^verbatim>\<open>0.0\<close>); negative zero, the two infinities and not-a-number
  are values of their own.  Arithmetic computes the exact rational result and rounds it to
  the nearest binary64 number, ties to the even significand, as the hardware does.
\<close>

datatype pyfloat = Fin rat | NegZero | PosInf | NegInf | NaN

text \<open>Rounding a rational to the nearest integer, a tie going to the even neighbour.\<close>

definition round_half_even :: "rat \<Rightarrow> int" where
  "round_half_even x =
     (let f = \<lfloor>x\<rfloor>; r = x - of_int f
      in if r < 1 / 2 then f else if 1 / 2 < r then f + 1 else if even f then f else f + 1)"

text \<open>The binary exponent of a positive rational: \<open>2 powi ilog2 q \<le> q < 2 powi (ilog2 q + 1)\<close>.\<close>

definition ilog2 :: "rat \<Rightarrow> int" where
  "ilog2 q = (if 1 \<le> q then bitlen \<lfloor>q\<rfloor> - 1 else - bitlen (\<lceil>1 / q\<rceil> - 1))"

text \<open>
  Rounding a non-zero rational to binary64: the significand has 53 bits, so the spacing of
  the representable numbers around \<open>q\<close> is \<open>2 powi (ilog2 \<bar>q\<bar> - 52)\<close>, and never less than
  \<open>2 powi (- 1074)\<close> (the subnormal numbers).  A result whose binary exponent is 1024 or
  more, that is of magnitude \<open>2 powi 1024\<close> or more, overflows to an infinity.
\<close>

definition round64 :: "rat \<Rightarrow> pyfloat" where
  "round64 q =
     (let e = max (ilog2 \<bar>q\<bar> - 52) (- 1074);
          m = round_half_even (q / 2 powi e);
          r = of_int m * 2 powi e
      in if m = 0 then (if 0 \<le> q then Fin 0 else NegZero)
         else if 1024 \<le> ilog2 \<bar>r\<bar> then (if 0 < q then PosInf else NegInf)
         else Fin r)"

text \<open>A float literal of the source denotes the binary64 number nearest to its decimal value.\<close>

definition float_literal :: "rat \<Rightarrow> pyfloat" where
  "float_literal q = (if q = 0 then Fin 0 else round64 q)"

text \<open>\<^verbatim>\<open>x + y\<close> on floats.\<close>

fun float_add :: "pyfloat \<Rightarrow> pyfloat \<Rightarrow> pyfloat" where
  "float_add NaN y = NaN"
| "float_add x NaN = NaN"
| "float_add PosInf NegInf = NaN"
| "float_add NegInf PosInf = NaN"
| "float_add PosInf y = PosInf"
| "float_add x PosInf = PosInf"
| "float_add NegInf y = NegInf"
| "float_add x NegInf = NegInf"
| "float_add NegZero y = y"
| "float_add x NegZero = x"
| "float_add (Fin a) (Fin b) = (if a + b = 0 then Fin 0 else round64 (a + b))"

text \<open>
  \<^verbatim>\<open>-x\<close> and \<^verbatim>\<open>x *= -1\<close> on a float (the integer is converted to \<^verbatim>\<open>-1.0\<close> and the
  product is exact): the sign changes and nothing else, also the sign of a zero.
\<close>

fun float_neg :: "pyfloat \<Rightarrow> pyfloat" where
  "float_neg NaN = NaN"
| "float_neg PosInf = NegInf"
| "float_neg NegInf = PosInf"
| "float_neg NegZero = Fin 0"
| "float_neg (Fin a) = (if a = 0 then NegZero else Fin (- a))"

text \<open>
  \<^verbatim>\<open>x <= y\<close> and \<^verbatim>\<open>x >= y\<close> on floats: a comparison with not-a-number is false, the two
  zeros are equal.
\<close>

fun float_le :: "pyfloat \<Rightarrow> pyfloat \<Rightarrow> bool" where
  "float_le NaN y = False"
| "float_le x NaN = False"
| "float_le NegInf y = True"
| "float_le x PosInf = True"
| "float_le PosInf y = False"
| "float_le x NegInf = False"
| "float_le NegZero NegZero = True"
| "float_le NegZero (Fin b) = (0 \<le> b)"
| "float_le (Fin a) NegZero = (a \<le> 0)"
| "float_le (Fin a) (Fin b) = (a \<le> b)"

definition float_ge :: "pyfloat \<Rightarrow> pyfloat \<Rightarrow> bool" where
  "float_ge x y = float_le y x"

subsection \<open>The object\<close>

text \<open>
  The attributes of a \<^verbatim>\<open>DemoProcess\<close>.  The constructor creates the first group.  Among
  them \<^verbatim>\<open>demo_red_color\<close> ... \<^verbatim>\<open>demo_blue_delta\<close> start as Python's \<^verbatim>\<open>None\<close>, which
  is \<open>None\<close> here.  The second group is created by \<^verbatim>\<open>_init_demo_color\<close> only: there
  \<open>None\<close> says that the object has no such attribute yet, and reading it raises
  \<^verbatim>\<open>AttributeError\<close>.
\<close>

record DemoProcess =
  current_temperature :: int
  temperature_delta :: int
  max_temperature :: int
  min_temperature :: int
  current_state_name :: string
  state_delay :: int
  state_count :: int
  mode :: DemoModes
  demo_red_color :: "int option"
  demo_green_color :: "int option"
  demo_blue_color :: "int option"
  demo_red_delta :: "int option"
  demo_green_delta :: "int option"
  demo_blue_delta :: "int option"
  current_percent :: pyfloat
  percent_delta :: pyfloat
  max_percent :: pyfloat
  min_percent :: pyfloat
  max_color_value :: "int option"
  min_color_value :: "int option"
  demo_red_value :: "int option"
  demo_green_value :: "int option"
  demo_blue_value :: "int option"
  demo_color_pair2 :: "int option"
  demo_pair2_delta :: "int option"
  demo_color_number :: "int option"
  total_color_pairs :: "int option"
  demo_color_pair :: "int option"

text \<open>\<^verbatim>\<open>DemoProcess.__init__\<close>.\<close>

definition DemoProcess_init :: DemoProcess where
  "DemoProcess_init =
     \<lparr> current_temperature = 20,
       temperature_delta = 1,
       max_temperature = 30,
       min_temperature = 10,
       current_state_name = DemoStates_name Disconnected,
       state_delay = 5,
       state_count = 5,
       mode = Disabled,
       demo_red_color = None,
       demo_green_color = None,
       demo_blue_color = None,
       demo_red_delta = None,
       demo_green_delta = None,
       demo_blue_delta = None,
       current_percent = float_literal 0,
       percent_delta = float_literal (1 / 10),
       max_percent = float_literal 1,
       min_percent = float_neg (float_literal 1),
       max_color_value = None,
       min_color_value = None,
       demo_red_value = None,
       demo_green_value = None,
       demo_blue_value = None,
       demo_color_pair2 = None,
       demo_pair2_delta = None,
       demo_color_number = None,
       total_color_pairs = None,
       demo_color_pair = None \<rparr>"

subsection \<open>The bounded walks\<close>

text \<open>\<^verbatim>\<open>_update_temperature\<close>: add the step, then turn round at or past a limit.\<close>

definition update_temperature :: "DemoProcess \<Rightarrow> DemoProcess" where
  "update_temperature s =
     (let s1 = s\<lparr>current_temperature := current_temperature s + temperature_delta s\<rparr>
      in if current_temperature s1 \<ge> max_temperature s1
            \<or> current_temperature s1 \<le> min_temperature s1
         then s1\<lparr>temperature_delta := temperature_delta s1 * (- 1)\<rparr>
         else s1)"

text \<open>\<^verbatim>\<open>_update_percent\<close>: the same walk on floats.\<close>

definition update_percent :: "DemoProcess \<Rightarrow> DemoProcess" where
  "update_percent s =
     (let s1 = s\<lparr>current_percent := float_add (current_percent s) (percent_delta s)\<rparr>
      in if float_ge (current_percent s1) (max_percent s1)
            \<or> float_le (current_percent s1) (min_percent s1)
         then s1\<lparr>percent_delta := float_neg (percent_delta s1)\<rparr>
         else s1)"

subsection \<open>Exceptions\<close>

text \<open>
  The exceptions the methods can raise.  A method that mutates the object and can raise
  returns an \<open>outcome\<close>: \<open>Ok\<close> with the object when it returns, \<open>Raise\<close> with the exception
  and the object as the statements before the raising one left it (the object outlives the
  exception).  A read accessor returns a \<open>reply\<close> next to the object.
\<close>

datatype pyerror = AttributeError | TypeError | CursesError

datatype 'a outcome = Ok 'a | Raise pyerror 'a

datatype 'r reply = Returns 'r | Raises pyerror

fun state_of :: "'a outcome \<Rightarrow> 'a" where
  "state_of (Ok s) = s"
| "state_of (Raise e s) = s"

text \<open>Sequencing: the next statement runs only when the previous one returned.\<close>

fun and_then :: "'a outcome \<Rightarrow> ('a \<Rightarrow> 'a outcome) \<Rightarrow> 'a outcome" where
  "and_then (Ok s) f = f s"
| "and_then (Raise e s) f = Raise e s"

subsection \<open>The discrete state\<close>

text \<open>
  \<^verbatim>\<open>random.choice\<close> belongs to Python's library and draws from a generator of its own.
  The generator is a state \<open>'g\<close> that is passed along, and the choice is a parameter: given
  the generator and the sequence it returns the member drawn and the generator after the
  draw.
\<close>

type_synonym 'g chooser = "'g \<Rightarrow> DemoStates list \<Rightarrow> DemoStates \<times> 'g"

text \<open>\<^verbatim>\<open>_update_state\<close>.\<close>

fun update_state :: "'g chooser \<Rightarrow> DemoProcess \<times> 'g \<Rightarrow> DemoProcess \<times> 'g" where
  "update_state choice (s, g) =
     (let s1 = s\<lparr>state_count := state_count s - 1\<rparr>
      in if state_count s1 \<le> 0
         then (let s2 = s1\<lparr>state_count := state_delay s1\<rparr>;
                   state_list = DemoStates_list;
                   drawn = choice g state_list
               in (s2\<lparr>current_state_name := DemoStates_name (fst drawn)\<rparr>, snd drawn))
         else (s1, g))"

subsection \<open>The colour channels and the colour service\<close>

text \<open>
  The terminal: \<^verbatim>\<open>curses.init_color\<close> and \<^verbatim>\<open>curses.init_pair\<close> either return or raise
  \<^verbatim>\<open>curses.error\<close>, depending on the terminal.  The two functions say for which arguments
  the call returns.  The user interface object gives the sizes of the palette.
\<close>

record curses =
  init_color :: "int \<Rightarrow> int \<Rightarrow> int \<Rightarrow> int \<Rightarrow> bool"
  init_pair :: "int \<Rightarrow> int \<Rightarrow> int \<Rightarrow> bool"

record CursesUI =
  ui_total_color_numbers :: int
  ui_total_color_pairs :: int

definition COLOR_BLACK :: int where
  "COLOR_BLACK = 0"

text \<open>\<^verbatim>\<open>_set_demo_color\<close>: the values are clamped for the call only.\<close>

definition set_demo_color :: "curses \<Rightarrow> int \<Rightarrow> int \<Rightarrow> int \<Rightarrow> DemoProcess \<Rightarrow> DemoProcess outcome" where
  "set_demo_color cs red green blue s =
     (case demo_color_number s of
        None \<Rightarrow> Raise AttributeError s
      | Some n \<Rightarrow>
          (case max_color_value s of
             None \<Rightarrow> Raise AttributeError s
           | Some mx \<Rightarrow>
               (case min_color_value s of
                  None \<Rightarrow> Raise AttributeError s
                | Some mn \<Rightarrow>
                    if init_color cs n (min mx (max red mn)) (min mx (max green mn))
                         (min mx (max blue mn))
                    then Ok s
                    else Raise CursesError s)))"

text \<open>\<^verbatim>\<open>_init_demo_color\<close>.\<close>

definition init_demo_color :: "curses \<Rightarrow> CursesUI \<Rightarrow> DemoProcess \<Rightarrow> DemoProcess outcome" where
  "init_demo_color cs demo_ui s =
     (let s1 = s\<lparr> max_color_value := Some 999,
                  min_color_value := Some 0,
                  demo_red_value := Some 500,
                  demo_green_value := Some 500,
                  demo_blue_value := Some 500,
                  demo_red_delta := Some 3,
                  demo_green_delta := Some 6,
                  demo_blue_delta := Some 9,
                  demo_color_pair2 := Some 1,
                  demo_pair2_delta := Some 1,
                  demo_color_number := Some (ui_total_color_numbers demo_ui - 1) \<rparr>
      in and_then (set_demo_color cs 500 500 500 s1)
           (\<lambda>s2.
              let s3 = s2\<lparr> total_color_pairs := Some (ui_total_color_pairs demo_ui),
                           demo_color_pair := Some (ui_total_color_pairs demo_ui - 1) \<rparr>
              in if init_pair cs (ui_total_color_pairs demo_ui - 1) COLOR_BLACK
                      (ui_total_color_numbers demo_ui - 1)
                 then Ok s3
                 else Raise CursesError s3))"

text \<open>
  The three blocks of \<^verbatim>\<open>_update_color\<close>, one per channel.  Reading a missing attribute
  raises \<^verbatim>\<open>AttributeError\<close>, adding \<^verbatim>\<open>None\<close> raises \<^verbatim>\<open>TypeError\<close>; \<^verbatim>\<open>or\<close> looks at the
  lower limit only when the first comparison is false.
\<close>

definition update_red :: "DemoProcess \<Rightarrow> DemoProcess outcome" where
  "update_red s =
     (case demo_red_value s of
        None \<Rightarrow> Raise AttributeError s
      | Some v \<Rightarrow>
          (case demo_red_delta s of
             None \<Rightarrow> Raise TypeError s
           | Some d \<Rightarrow>
               (let s1 = s\<lparr>demo_red_value := Some (v + d)\<rparr>
                in case max_color_value s1 of
                     None \<Rightarrow> Raise AttributeError s1
                   | Some mx \<Rightarrow>
                       if v + d \<ge> mx then Ok (s1\<lparr>demo_red_delta := Some (d * (- 1))\<rparr>)
                       else (case min_color_value s1 of
                               None \<Rightarrow> Raise AttributeError s1
                             | Some mn \<Rightarrow>
                                 if v + d \<le> mn
                                 then Ok (s1\<lparr>demo_red_delta := Some (d * (- 1))\<rparr>)
                                 else Ok s1))))"

definition update_green :: "DemoProcess \<Rightarrow> DemoProcess outcome" where
  "update_green s =
     (case demo_green_value s of
        None \<Rightarrow> Raise AttributeError s
      | Some v \<Rightarrow>
          (case demo_green_delta s of
             None \<Rightarrow> Raise TypeError s
           | Some d \<Rightarrow>
               (let s1 = s\<lparr>demo_green_value := Some (v + d)\<rparr>
                in case max_color_value s1 of
                     None \<Rightarrow> Raise AttributeError s1
                   | Some mx \<Rightarrow>
                       if v + d \<ge> mx then Ok (s1\<lparr>demo_green_delta := Some (d * (- 1))\<rparr>)
                       else (case min_color_value s1 of
                               None \<Rightarrow> Raise AttributeError s1
                             | Some mn \<Rightarrow>
                                 if v + d \<le> mn
                                 then Ok (s1\<lparr>demo_green_delta := Some (d * (- 1))\<rparr>)
                                 else Ok s1))))"

definition update_blue :: "DemoProcess \<Rightarrow> DemoProcess outcome" where
  "update_blue s =
     (case demo_blue_value s of
        None \<Rightarrow> Raise AttributeError s
      | Some v \<Rightarrow>
          (case demo_blue_delta s of
             None \<Rightarrow> Raise TypeError s
           | Some d \<Rightarrow>
               (let s1 = s\<lparr>demo_blue_value := Some (v + d)\<rparr>
                in case max_color_value s1 of
                     None \<Rightarrow> Raise AttributeError s1
                   | Some mx \<Rightarrow>
                       if v + d \<ge> mx then Ok (s1\<lparr>demo_blue_delta := Some (d * (- 1))\<rparr>)
                       else (case min_color_value s1 of
                               None \<Rightarrow> Raise AttributeError s1
                             | Some mn \<Rightarrow>
                                 if v + d \<le> mn
                                 then Ok (s1\<lparr>demo_blue_delta := Some (d * (- 1))\<rparr>)
                                 else Ok s1))))"

text \<open>
  \<^verbatim>\<open>_update_color\<close>: the three channels in turn, then the call of the colour service with
  the new values.  There is no \<^verbatim>\<open>try\<close> around the call.
\<close>

definition update_color :: "curses \<Rightarrow> DemoProcess \<Rightarrow> DemoProcess outcome" where
  "update_color cs s =
     and_then (update_red s) (\<lambda>s1.
     and_then (update_green s1) (\<lambda>s2.
     and_then (update_blue s2) (\<lambda>s3.
       case demo_red_value s3 of
         None \<Rightarrow> Raise AttributeError s3
       | Some r \<Rightarrow>
           (case demo_green_value s3 of
              None \<Rightarrow> Raise AttributeError s3
            | Some g \<Rightarrow>
                (case demo_blue_value s3 of
                   None \<Rightarrow> Raise AttributeError s3
                 | Some b \<Rightarrow> set_demo_color cs r g b s3)))))"

subsection \<open>Formatting\<close>

text \<open>\<^verbatim>\<open>"{0}".format(n)\<close> for an integer: its decimal digits, with a minus sign when negative.\<close>

function str_nat :: "nat \<Rightarrow> string" where
  "str_nat n =
     (if n < 10 then [''0123456789'' ! n]
      else str_nat (n div 10) @ [''0123456789'' ! (n mod 10)])"
  by pat_completeness auto
termination
  by (relation "measure (\<lambda>n. n)") auto

definition str_int :: "int \<Rightarrow> string" where
  "str_int i = (if i < 0 then CHR ''-'' # str_nat (nat (- i)) else str_nat (nat i))"

text \<open>
  Python's conversions of a float to text belong to its library and are parameters:
  \<open>format_2f\<close> is \<^verbatim>\<open>"{:.2f}".format(x)\<close> and \<open>float_str\<close> is \<^verbatim>\<open>"{0}".format(x)\<close>.
\<close>

record float_text =
  format_2f :: "pyfloat \<Rightarrow> string"
  float_str :: "pyfloat \<Rightarrow> string"

subsection \<open>Read accessors\<close>

text \<open>Every read accessor returns its reply together with the object it was called on.\<close>

definition get_demo_color_text :: "DemoProcess \<Rightarrow> string reply \<times> DemoProcess" where
  "get_demo_color_text s =
     (case demo_red_value s of
        None \<Rightarrow> (Raises AttributeError, s)
      | Some r \<Rightarrow>
          (case demo_green_value s of
             None \<Rightarrow> (Raises AttributeError, s)
           | Some g \<Rightarrow>
               (case demo_blue_value s of
                  None \<Rightarrow> (Raises AttributeError, s)
                | Some b \<Rightarrow>
                    (Returns (''Color: R:'' @ str_int r @ '' G:'' @ str_int g
                                @ '' B:'' @ str_int b), s))))"

definition get_demo_temperature_text :: "DemoProcess \<Rightarrow> string reply \<times> DemoProcess" where
  "get_demo_temperature_text s =
     (Returns (''Current Temp: '' @ str_int (current_temperature s)), s)"

definition get_demo_percent_text ::
  "float_text \<Rightarrow> DemoProcess \<Rightarrow> string reply \<times> DemoProcess" where
  "get_demo_percent_text ft s = (Returns (''Percent: '' @ format_2f ft (current_percent s)), s)"

definition get_demo_state_text :: "DemoProcess \<Rightarrow> string reply \<times> DemoProcess" where
  "get_demo_state_text s = (Returns (''Current State: '' @ current_state_name s), s)"

definition get_demo_mode_text :: "DemoProcess \<Rightarrow> string reply \<times> DemoProcess" where
  "get_demo_mode_text s =
     (let mode_list = DemoModes_list
      in (Returns (''Current Mode: '' @ DemoModes_name (mode s)), s))"

definition get_demo_mode_value :: "DemoProcess \<Rightarrow> int reply \<times> DemoProcess" where
  "get_demo_mode_value s = (Returns (DemoModes_value (mode s)), s)"

definition get_demo_tmax_text :: "DemoProcess \<Rightarrow> string reply \<times> DemoProcess" where
  "get_demo_tmax_text s = (Returns (''Max Temperature: '' @ str_int (max_temperature s)), s)"

definition get_demo_tmin_text :: "DemoProcess \<Rightarrow> string reply \<times> DemoProcess" where
  "get_demo_tmin_text s = (Returns (''Min Temperature: '' @ str_int (min_temperature s)), s)"

definition get_demo_pmax_text ::
  "float_text \<Rightarrow> DemoProcess \<Rightarrow> string reply \<times> DemoProcess" where
  "get_demo_pmax_text ft s = (Returns (''Max Percent: '' @ float_str ft (max_percent s)), s)"

definition get_demo_pmin_text ::
  "float_text \<Rightarrow> DemoProcess \<Rightarrow> string reply \<times> DemoProcess" where
  "get_demo_pmin_text ft s = (Returns (''Min Percent: '' @ float_str ft (min_percent s)), s)"

subsection \<open>Write accessors\<close>

definition set_demo_mode :: "DemoModes \<Rightarrow> DemoProcess \<Rightarrow> DemoProcess" where
  "set_demo_mode newmode s = s\<lparr>mode := newmode\<rparr>"

definition set_demo_max_temperature :: "int \<Rightarrow> DemoProcess \<Rightarrow> DemoProcess" where
  "set_demo_max_temperature tmax s = s\<lparr>max_temperature := tmax\<rparr>"

definition set_demo_min_temperature :: "int \<Rightarrow> DemoProcess \<Rightarrow> DemoProcess" where
  "set_demo_min_temperature tmin s = s\<lparr>min_temperature := tmin\<rparr>"

definition set_demo_max_percent :: "pyfloat \<Rightarrow> DemoProcess \<Rightarrow> DemoProcess" where
  "set_demo_max_percent pmax s = s\<lparr>max_percent := pmax\<rparr>"

definition set_demo_min_percent :: "pyfloat \<Rightarrow> DemoProcess \<Rightarrow> DemoProcess" where
  "set_demo_min_percent pmin s = s\<lparr>min_percent := pmin\<rparr>"

subsection \<open>The periodic tasks\<close>

text \<open>
  \<^verbatim>\<open>run_fast\<close> and \<^verbatim>\<open>run_slow\<close> are \<^verbatim>\<open>while True\<close> loops whose body ends in a sleep, the
  only point where another task can run.  The body of one iteration is a function of its
  own; the loop takes the number of iterations to run, and an exception leaves it.
\<close>

definition run_fast_body :: "curses \<Rightarrow> DemoProcess \<Rightarrow> DemoProcess outcome" where
  "run_fast_body cs s = and_then (update_color cs s) (\<lambda>s1. Ok (update_percent s1))"

fun run_fast :: "curses \<Rightarrow> nat \<Rightarrow> DemoProcess \<Rightarrow> DemoProcess outcome" where
  "run_fast cs 0 s = Ok s"
| "run_fast cs (Suc n) s = and_then (run_fast_body cs s) (run_fast cs n)"

definition run_slow_body ::
  "curses \<Rightarrow> 'g chooser \<Rightarrow> DemoProcess \<times> 'g \<Rightarrow> (DemoProcess \<times> 'g) outcome" where
  "run_slow_body cs choice sg =
     (let s1 = update_temperature (fst sg);
          sg2 = update_state choice (s1, snd sg)
      in case update_color cs (fst sg2) of
           Ok s3 \<Rightarrow> Ok (s3, snd sg2)
         | Raise e s3 \<Rightarrow> Raise e (s3, snd sg2))"

fun run_slow ::
  "curses \<Rightarrow> 'g chooser \<Rightarrow> nat \<Rightarrow> DemoProcess \<times> 'g \<Rightarrow> (DemoProcess \<times> 'g) outcome" where
  "run_slow cs choice 0 sg = Ok sg"
| "run_slow cs choice (Suc n) sg = and_then (run_slow_body cs choice sg) (run_slow cs choice n)"

text \<open>Two terminals: one accepts every call, one rejects every colour definition.\<close>

definition accepting :: curses where
  "accepting = \<lparr> init_color = (\<lambda>n r g b. True), init_pair = (\<lambda>p f b. True) \<rparr>"

definition rejecting :: curses where
  "rejecting = \<lparr> init_color = (\<lambda>n r g b. False), init_pair = (\<lambda>p f b. True) \<rparr>"

definition demo_ui_256 :: CursesUI where
  "demo_ui_256 = \<lparr> ui_total_color_numbers = 256, ui_total_color_pairs = 256 \<rparr>"

subsection \<open>Repeated calls\<close>

text \<open>
  The states after the first, second, ... \<open>n\<close>-th call of a method \<open>f\<close> on \<open>s\<close>; the \<open>k\<close>-th
  call leaves \<open>(f ^^ k) s\<close>.
\<close>

fun orbit :: "('a \<Rightarrow> 'a) \<Rightarrow> nat \<Rightarrow> 'a \<Rightarrow> 'a list" where
  "orbit f 0 s = []"
| "orbit f (Suc n) s = f s # orbit f n (f s)"

section \<open>Properties\<close>

subsection \<open>Repeated calls\<close>

lemma orbit_nth: "k < n \<Longrightarrow> orbit f n s ! k = (f ^^ Suc k) s"
proof (induction n arbitrary: s k)
  case 0
  then show ?case by simp
next
  case (Suc n)
  show ?case
  proof (cases k)
    case 0
    then show ?thesis by simp
  next
    case (Suc j)
    with Suc.prems have "j < n" by simp
    then have "orbit f n (f s) ! j = (f ^^ Suc j) (f s)" by (rule Suc.IH)
    with Suc show ?thesis by (simp add: funpow_swap1)
  qed
qed

lemma length_orbit: "length (orbit f n s) = n"
  by (induction n arbitrary: s) simp_all

lemma orbit_all:
  assumes "list_all P (orbit f n s)" and "0 < k" and "k \<le> n"
  shows "P ((f ^^ k) s)"
proof -
  from assms(2,3) have "k - 1 < n" by simp
  with assms(1) have "P (orbit f n s ! (k - 1))"
    by (simp add: list_all_length length_orbit)
  with \<open>k - 1 < n\<close> assms(2) show ?thesis by (simp add: orbit_nth)
qed

subsection \<open>The binary exponent\<close>

text \<open>
  \<open>ilog2\<close> is the binary exponent the rounding needs: a positive rational lies between the
  power of two it names and the next one.
\<close>

lemma ilog2_bounds:
  assumes "0 < q"
  shows "2 powi (ilog2 q) \<le> q \<and> q < 2 powi (ilog2 q + 1)"
proof (cases "1 \<le> q")
  case True
  define n where "n = \<lfloor>q\<rfloor>"
  from True have n1: "1 \<le> n" unfolding n_def by simp
  then have npos: "0 < n" by simp
  from bitlen_bounds [OF npos]
  have lo: "2 ^ nat (bitlen n - 1) \<le> n" and hi: "n < 2 ^ nat (bitlen n)" by simp_all
  have bl: "1 \<le> bitlen n" using npos by (simp add: bitlen_alt_def)
  have "(2::rat) ^ nat (bitlen n - 1) \<le> rat_of_int n"
    using lo by (metis of_int_le_iff of_int_numeral of_int_power)
  also have "rat_of_int n \<le> q" unfolding n_def by simp
  finally have a: "2 powi (bitlen n - 1) \<le> q" using bl by (simp add: power_int_def)
  have "n + 1 \<le> 2 ^ nat (bitlen n)" using hi by simp
  then have "rat_of_int (n + 1) \<le> (2::rat) ^ nat (bitlen n)"
    by (metis of_int_le_iff of_int_numeral of_int_power)
  moreover have "q < rat_of_int (n + 1)" unfolding n_def by linarith
  ultimately have b: "q < 2 powi (bitlen n)" using bl by (simp add: power_int_def)
  from a b True show ?thesis by (simp add: ilog2_def n_def)
next
  case False
  define x where "x = 1 / q"
  define m where "m = \<lceil>x\<rceil> - 1"
  from False assms have x1: "1 < x" unfolding x_def by simp
  then have m1: "1 \<le> m" unfolding m_def by linarith
  then have mpos: "0 < m" by simp
  have mx: "rat_of_int m < x" and xm: "x \<le> rat_of_int (m + 1)" unfolding m_def by linarith+
  from bitlen_bounds [OF mpos]
  have lo: "2 ^ nat (bitlen m - 1) \<le> m" and hi: "m < 2 ^ nat (bitlen m)" by simp_all
  have bl: "1 \<le> bitlen m" using mpos by (simp add: bitlen_alt_def)
  have "m + 1 \<le> 2 ^ nat (bitlen m)" using hi by simp
  then have "rat_of_int (m + 1) \<le> (2::rat) ^ nat (bitlen m)"
    by (metis of_int_le_iff of_int_numeral of_int_power)
  with xm have xhi: "x \<le> 2 ^ nat (bitlen m)" by linarith
  have "(2::rat) ^ nat (bitlen m - 1) \<le> rat_of_int m"
    using lo by (metis of_int_le_iff of_int_numeral of_int_power)
  with mx have xlo: "2 ^ nat (bitlen m - 1) < x" by linarith
  have qx: "q = 1 / x" unfolding x_def by simp
  have xpos: "0 < x" using x1 by simp
  have a: "2 powi (- bitlen m) \<le> q"
  proof -
    have "1 / 2 ^ nat (bitlen m) \<le> 1 / x"
      using xhi xpos by (simp add: frac_le)
    then show ?thesis using bl by (simp add: qx power_int_def field_simps)
  qed
  have b: "q < 2 powi (- bitlen m + 1)"
  proof -
    have "1 / x < 1 / 2 ^ nat (bitlen m - 1)"
      using xlo by (simp add: frac_less2)
    moreover have "(2::rat) powi (- bitlen m + 1) = 1 / 2 ^ nat (bitlen m - 1)"
      using bl by (simp add: power_int_def field_simps nat_diff_distrib)
    ultimately show ?thesis by (simp add: qx)
  qed
  from a b False show ?thesis by (simp add: ilog2_def x_def m_def)
qed

subsection \<open>The temperature walk\<close>

lemmas temperature_eval = eval_nat_numeral update_temperature_def DemoProcess_init_def Let_def

lemma temperature_after_10:
  "(update_temperature ^^ 10) DemoProcess_init =
     DemoProcess_init\<lparr>current_temperature := 30, temperature_delta := - 1\<rparr>"
  by (simp add: temperature_eval)

lemma temperature_after_30:
  "(update_temperature ^^ 20) ((update_temperature ^^ 10) DemoProcess_init) =
     DemoProcess_init\<lparr>current_temperature := 10, temperature_delta := 1\<rparr>"
  by (simp add: temperature_eval)

lemma temperature_after_40:
  "(update_temperature ^^ 40) DemoProcess_init = DemoProcess_init"
  by (simp add: temperature_eval)

lemma temperature_not_before_40:
  "list_all (\<lambda>s. (current_temperature s, temperature_delta s) \<noteq> (20, 1))
     (orbit update_temperature 39 DemoProcess_init)"
  by (simp add: temperature_eval)

text \<open>
  Claim C4.  From the state the constructor leaves (temperature 20, limits 10 and 30,
  step \<open>+1\<close>): ten calls of \<^verbatim>\<open>_update_temperature\<close> give temperature 30 and step \<open>-1\<close>;
  twenty further calls give temperature 10 and step \<open>+1\<close>; after forty calls the object is
  the initial one again, and after no smaller positive number of calls are temperature and
  step back at 20 and \<open>+1\<close>: the period is exactly 40.
\<close>

theorem temperature_cycle:
  "current_temperature ((update_temperature ^^ 10) DemoProcess_init) = 30
   \<and> temperature_delta ((update_temperature ^^ 10) DemoProcess_init) = - 1
   \<and> current_temperature ((update_temperature ^^ 20) ((update_temperature ^^ 10) DemoProcess_init)) = 10
   \<and> temperature_delta ((update_temperature ^^ 20) ((update_temperature ^^ 10) DemoProcess_init)) = 1
   \<and> (update_temperature ^^ 40) DemoProcess_init = DemoProcess_init
   \<and> current_temperature DemoProcess_init = 20
   \<and> temperature_delta DemoProcess_init = 1
   \<and> (\<forall>k. 0 < k \<and> k < 40 \<longrightarrow>
          (current_temperature ((update_temperature ^^ k) DemoProcess_init),
           temperature_delta ((update_temperature ^^ k) DemoProcess_init)) \<noteq> (20, 1))"
proof -
  have early: "\<forall>k. 0 < k \<and> k < 40 \<longrightarrow>
          (current_temperature ((update_temperature ^^ k) DemoProcess_init),
           temperature_delta ((update_temperature ^^ k) DemoProcess_init)) \<noteq> (20, 1)"
  proof (intro allI impI)
    fix k :: nat
    assume "0 < k \<and> k < 40"
    then have "0 < k" and "k \<le> 39" by simp_all
    with temperature_not_before_40
    show "(current_temperature ((update_temperature ^^ k) DemoProcess_init),
           temperature_delta ((update_temperature ^^ k) DemoProcess_init)) \<noteq> (20, 1)"
      by (rule orbit_all)
  qed
  have start: "current_temperature DemoProcess_init = 20 \<and> temperature_delta DemoProcess_init = 1"
    by (simp add: DemoProcess_init_def)
  have up: "current_temperature ((update_temperature ^^ 10) DemoProcess_init) = 30
      \<and> temperature_delta ((update_temperature ^^ 10) DemoProcess_init) = - 1"
    by (simp add: temperature_after_10)
  have down:
    "current_temperature ((update_temperature ^^ 20) ((update_temperature ^^ 10) DemoProcess_init)) = 10
      \<and> temperature_delta ((update_temperature ^^ 20) ((update_temperature ^^ 10) DemoProcess_init)) = 1"
    by (simp add: temperature_after_30)
  from up down temperature_after_40 start early show ?thesis
    by blast
qed

theorem temperature_cycle_witness:
  "(0::nat) < 20 \<and> (20::nat) < 40
   \<and> (current_temperature ((update_temperature ^^ 20) DemoProcess_init),
       temperature_delta ((update_temperature ^^ 20) DemoProcess_init)) \<noteq> (20, 1)"
proof -
  have range: "(0::nat) < 20 \<and> (20::nat) < 40" by simp
  from temperature_cycle
  have "\<forall>k. 0 < k \<and> k < 40 \<longrightarrow>
          (current_temperature ((update_temperature ^^ k) DemoProcess_init),
           temperature_delta ((update_temperature ^^ k) DemoProcess_init)) \<noteq> (20, 1)"
    by (elim conjE)
  with range show ?thesis by blast
qed

subsection \<open>The percent walk\<close>

text \<open>
  The float literals of the constructor and the sums the walk computes, each evaluated
  from the definition of the rounding.  The fractions are the exact values of the binary64
  numbers Python prints as \<^verbatim>\<open>0.1\<close>, \<^verbatim>\<open>0.2\<close>, \<^verbatim>\<open>0.30000000000000004\<close>, \<^verbatim>\<open>0.4\<close>, \<^verbatim>\<open>0.5\<close>,
  \<^verbatim>\<open>0.6\<close>, \<^verbatim>\<open>0.7\<close>, \<^verbatim>\<open>0.7999999999999999\<close>, \<^verbatim>\<open>0.8999999999999999\<close>,
  \<^verbatim>\<open>0.9999999999999999\<close> and \<^verbatim>\<open>1.0999999999999999\<close>.
\<close>

lemma float_literals:
  "float_literal 0 = Fin 0"
  "float_literal 1 = Fin 1"
  "float_literal (1 / 10) = Fin (3602879701896397 / 36028797018963968)"
  by code_simp+

lemma percent_adds:
  "float_add (Fin 0) (Fin (3602879701896397 / 36028797018963968)) = Fin (3602879701896397 / 36028797018963968)"
  "float_add (Fin (3602879701896397 / 36028797018963968)) (Fin (3602879701896397 / 36028797018963968)) = Fin (3602879701896397 / 18014398509481984)"
  "float_add (Fin (3602879701896397 / 18014398509481984)) (Fin (3602879701896397 / 36028797018963968)) = Fin (1351079888211149 / 4503599627370496)"
  "float_add (Fin (1351079888211149 / 4503599627370496)) (Fin (3602879701896397 / 36028797018963968)) = Fin (3602879701896397 / 9007199254740992)"
  "float_add (Fin (3602879701896397 / 9007199254740992)) (Fin (3602879701896397 / 36028797018963968)) = Fin (1 / 2)"
  "float_add (Fin (1 / 2)) (Fin (3602879701896397 / 36028797018963968)) = Fin (5404319552844595 / 9007199254740992)"
  "float_add (Fin (5404319552844595 / 9007199254740992)) (Fin (3602879701896397 / 36028797018963968)) = Fin (3152519739159347 / 4503599627370496)"
  "float_add (Fin (3152519739159347 / 4503599627370496)) (Fin (3602879701896397 / 36028797018963968)) = Fin (7205759403792793 / 9007199254740992)"
  "float_add (Fin (7205759403792793 / 9007199254740992)) (Fin (3602879701896397 / 36028797018963968)) = Fin (2026619832316723 / 2251799813685248)"
  "float_add (Fin (2026619832316723 / 2251799813685248)) (Fin (3602879701896397 / 36028797018963968)) = Fin (9007199254740991 / 9007199254740992)"
  "float_add (Fin (9007199254740991 / 9007199254740992)) (Fin (3602879701896397 / 36028797018963968)) = Fin (4953959590107545 / 4503599627370496)"
  "float_add (Fin (1 / 2)) (Fin (1 / 2)) = Fin 1"
  by code_simp+

lemmas percent_eval = eval_nat_numeral update_percent_def DemoProcess_init_def Let_def
  float_literals percent_adds float_ge_def

lemma percent_after_10:
  "(update_percent ^^ 10) DemoProcess_init =
     DemoProcess_init\<lparr>current_percent := Fin (9007199254740991 / 9007199254740992)\<rparr>"
  by (simp add: percent_eval del: float_add.simps)

lemma percent_after_11:
  "(update_percent ^^ 11) DemoProcess_init =
     DemoProcess_init\<lparr>current_percent := Fin (4953959590107545 / 4503599627370496),
       percent_delta := Fin (- (3602879701896397 / 36028797018963968))\<rparr>"
  by (simp add: percent_eval del: float_add.simps)

lemma percent_exact_landing:
  "update_percent (DemoProcess_init\<lparr>current_percent := Fin (1 / 2), percent_delta := Fin (1 / 2)\<rparr>) =
     DemoProcess_init\<lparr>current_percent := Fin 1, percent_delta := Fin (- (1 / 2))\<rparr>"
  by (simp add: percent_eval del: float_add.simps)

text \<open>
  Claim C2, as stated: from the constructor's state, ten calls of \<^verbatim>\<open>_update_percent\<close>
  leave the percentage at \<^verbatim>\<open>1.0\<close> and the step at \<^verbatim>\<open>-0.1\<close>.  This is false: ten
  binary64 additions of \<^verbatim>\<open>0.1\<close> give \<^verbatim>\<open>0.9999999999999999\<close>, below the ceiling, and the
  step is not reversed.
\<close>

theorem percent_ten_calls_counterexample:
  "\<not> (current_percent ((update_percent ^^ 10) DemoProcess_init) = float_literal 1
      \<and> percent_delta ((update_percent ^^ 10) DemoProcess_init) = float_neg (float_literal (1 / 10)))"
  by (simp only: percent_after_10) (simp add: DemoProcess_init_def float_literals)

text \<open>
  Claim C2, amended.  From the constructor's state (percentage \<^verbatim>\<open>0.0\<close>, limits \<^verbatim>\<open>-1.0\<close>
  and \<^verbatim>\<open>1.0\<close>, step \<^verbatim>\<open>0.1\<close>): after ten calls the percentage is the binary64 number
  \<open>1 - 1 / 2 ^ 53\<close> (\<^verbatim>\<open>0.9999999999999999\<close>), the comparison with the ceiling is false and
  the step is still \<^verbatim>\<open>0.1\<close>; the eleventh call lands on \<^verbatim>\<open>1.0999999999999999\<close>, at or past
  the ceiling, and reverses the step to \<^verbatim>\<open>-0.1\<close>.  The comparison itself is true at exact
  equality: a call that lands exactly on \<^verbatim>\<open>1.0\<close> (from \<^verbatim>\<open>0.5\<close> with step \<^verbatim>\<open>0.5\<close>)
  reverses the step in that call.
\<close>

theorem percent_walk:
  "current_percent DemoProcess_init = float_literal 0
   \<and> percent_delta DemoProcess_init = float_literal (1 / 10)
   \<and> max_percent DemoProcess_init = float_literal 1
   \<and> min_percent DemoProcess_init = float_neg (float_literal 1)
   \<and> current_percent ((update_percent ^^ 10) DemoProcess_init) = Fin (1 - 1 / 2 ^ 53)
   \<and> \<not> float_ge (current_percent ((update_percent ^^ 10) DemoProcess_init))
          (max_percent ((update_percent ^^ 10) DemoProcess_init))
   \<and> percent_delta ((update_percent ^^ 10) DemoProcess_init) = float_literal (1 / 10)
   \<and> current_percent ((update_percent ^^ 11) DemoProcess_init)
       = Fin (4953959590107545 / 4503599627370496)
   \<and> float_ge (current_percent ((update_percent ^^ 11) DemoProcess_init))
        (max_percent ((update_percent ^^ 11) DemoProcess_init))
   \<and> percent_delta ((update_percent ^^ 11) DemoProcess_init) = float_neg (float_literal (1 / 10))
   \<and> current_percent
        (update_percent (DemoProcess_init\<lparr>current_percent := Fin (1 / 2), percent_delta := Fin (1 / 2)\<rparr>))
       = float_literal 1
   \<and> percent_delta
        (update_percent (DemoProcess_init\<lparr>current_percent := Fin (1 / 2), percent_delta := Fin (1 / 2)\<rparr>))
       = float_neg (Fin (1 / 2))"
  by (simp only: percent_after_10 percent_after_11 percent_exact_landing)
    (simp add: DemoProcess_init_def float_literals float_ge_def)

subsection \<open>The colour channels\<close>

lemma state_of_and_then:
  "state_of (and_then x f) = (case x of Ok s \<Rightarrow> state_of (f s) | Raise e s \<Rightarrow> s)"
  by (cases x) simp_all

lemma update_red_Some:
  assumes "demo_red_value s = Some v" and "demo_red_delta s = Some d"
    and "max_color_value s = Some mx" and "min_color_value s = Some mn"
  shows "update_red s =
           Ok (s\<lparr>demo_red_value := Some (v + d),
                 demo_red_delta := Some (if v + d \<ge> mx \<or> v + d \<le> mn then - d else d)\<rparr>)"
  using assms by (simp add: update_red_def Let_def)

lemma update_green_Some:
  assumes "demo_green_value s = Some v" and "demo_green_delta s = Some d"
    and "max_color_value s = Some mx" and "min_color_value s = Some mn"
  shows "update_green s =
           Ok (s\<lparr>demo_green_value := Some (v + d),
                 demo_green_delta := Some (if v + d \<ge> mx \<or> v + d \<le> mn then - d else d)\<rparr>)"
  using assms by (simp add: update_green_def Let_def)

lemma update_blue_Some:
  assumes "demo_blue_value s = Some v" and "demo_blue_delta s = Some d"
    and "max_color_value s = Some mx" and "min_color_value s = Some mn"
  shows "update_blue s =
           Ok (s\<lparr>demo_blue_value := Some (v + d),
                 demo_blue_delta := Some (if v + d \<ge> mx \<or> v + d \<le> mn then - d else d)\<rparr>)"
  using assms by (simp add: update_blue_def Let_def)

lemma state_of_set_demo_color: "state_of (set_demo_color cs r g b s) = s"
  by (simp add: set_demo_color_def split: option.splits)

lemma update_color_Some:
  assumes "demo_red_value s = Some r" and "demo_red_delta s = Some dr"
    and "demo_green_value s = Some g" and "demo_green_delta s = Some dg"
    and "demo_blue_value s = Some b" and "demo_blue_delta s = Some db"
    and "max_color_value s = Some mx" and "min_color_value s = Some mn"
  shows "state_of (update_color cs s) =
           s\<lparr>demo_red_value := Some (r + dr),
             demo_red_delta := Some (if r + dr \<ge> mx \<or> r + dr \<le> mn then - dr else dr),
             demo_green_value := Some (g + dg),
             demo_green_delta := Some (if g + dg \<ge> mx \<or> g + dg \<le> mn then - dg else dg),
             demo_blue_value := Some (b + db),
             demo_blue_delta := Some (if b + db \<ge> mx \<or> b + db \<le> mn then - db else db)\<rparr>"
  using assms
  by (simp add: update_color_def update_red_Some update_green_Some update_blue_Some
        state_of_set_demo_color)

lemmas color_eval = update_color_def update_red_def update_green_def update_blue_def
  set_demo_color_def

lemma update_color_fresh:
  "update_color cs DemoProcess_init = Raise AttributeError DemoProcess_init"
  by (simp add: update_color_def update_red_def DemoProcess_init_def)

lemma run_fast_body_fresh:
  "run_fast_body cs DemoProcess_init = Raise AttributeError DemoProcess_init"
  by (simp add: run_fast_body_def update_color_fresh)

lemma init_demo_color_fields:
  "demo_red_value (state_of (init_demo_color cs demo_ui s)) = Some 500
   \<and> demo_green_value (state_of (init_demo_color cs demo_ui s)) = Some 500
   \<and> demo_blue_value (state_of (init_demo_color cs demo_ui s)) = Some 500
   \<and> demo_red_delta (state_of (init_demo_color cs demo_ui s)) = Some 3
   \<and> demo_green_delta (state_of (init_demo_color cs demo_ui s)) = Some 6
   \<and> demo_blue_delta (state_of (init_demo_color cs demo_ui s)) = Some 9
   \<and> max_color_value (state_of (init_demo_color cs demo_ui s)) = Some 999
   \<and> min_color_value (state_of (init_demo_color cs demo_ui s)) = Some 0"
  by (simp add: init_demo_color_def set_demo_color_def Let_def)

text \<open>
  Claim C10.  The constructor leaves \<^verbatim>\<open>demo_red_color\<close>, \<^verbatim>\<open>demo_green_color\<close>,
  \<^verbatim>\<open>demo_blue_color\<close> and the three steps at \<^verbatim>\<open>None\<close>, and creates no channel value
  \<^verbatim>\<open>demo_red_value\<close>, \<^verbatim>\<open>demo_green_value\<close>, \<^verbatim>\<open>demo_blue_value\<close> at all.  The values 500
  and the steps 3, 6, 9 are set by \<^verbatim>\<open>_init_demo_color\<close> (before its first call of the
  colour service, so whatever the terminal answers).  On the freshly constructed object
  \<^verbatim>\<open>_update_color\<close>, and with it one body of the fast task, computes nothing: it raises on
  the first channel and leaves the object as it was.
\<close>

theorem color_uninitialised_after_construction:
  "demo_red_color DemoProcess_init = None
   \<and> demo_green_color DemoProcess_init = None
   \<and> demo_blue_color DemoProcess_init = None
   \<and> demo_red_delta DemoProcess_init = None
   \<and> demo_green_delta DemoProcess_init = None
   \<and> demo_blue_delta DemoProcess_init = None
   \<and> demo_red_value DemoProcess_init = None
   \<and> demo_green_value DemoProcess_init = None
   \<and> demo_blue_value DemoProcess_init = None
   \<and> update_color cs DemoProcess_init = Raise AttributeError DemoProcess_init
   \<and> run_fast_body cs DemoProcess_init = Raise AttributeError DemoProcess_init
   \<and> demo_red_value (state_of (init_demo_color cs demo_ui DemoProcess_init)) = Some 500
   \<and> demo_green_value (state_of (init_demo_color cs demo_ui DemoProcess_init)) = Some 500
   \<and> demo_blue_value (state_of (init_demo_color cs demo_ui DemoProcess_init)) = Some 500
   \<and> demo_red_delta (state_of (init_demo_color cs demo_ui DemoProcess_init)) = Some 3
   \<and> demo_green_delta (state_of (init_demo_color cs demo_ui DemoProcess_init)) = Some 6
   \<and> demo_blue_delta (state_of (init_demo_color cs demo_ui DemoProcess_init)) = Some 9"
proof -
  have fresh: "demo_red_color DemoProcess_init = None
      \<and> demo_green_color DemoProcess_init = None
      \<and> demo_blue_color DemoProcess_init = None
      \<and> demo_red_delta DemoProcess_init = None
      \<and> demo_green_delta DemoProcess_init = None
      \<and> demo_blue_delta DemoProcess_init = None
      \<and> demo_red_value DemoProcess_init = None
      \<and> demo_green_value DemoProcess_init = None
      \<and> demo_blue_value DemoProcess_init = None"
    by (simp add: DemoProcess_init_def)
  from fresh update_color_fresh [of cs] run_fast_body_fresh [of cs]
    init_demo_color_fields [of cs demo_ui DemoProcess_init]
  show ?thesis by blast
qed

subsection \<open>The fast task\<close>

lemma init_demo_color_accepted:
  assumes "\<And>n r g b. init_color cs n r g b" and "\<And>p f b. init_pair cs p f b"
  shows "init_demo_color cs demo_ui DemoProcess_init =
     Ok (DemoProcess_init
          \<lparr> max_color_value := Some 999,
            min_color_value := Some 0,
            demo_red_value := Some 500,
            demo_green_value := Some 500,
            demo_blue_value := Some 500,
            demo_red_delta := Some 3,
            demo_green_delta := Some 6,
            demo_blue_delta := Some 9,
            demo_color_pair2 := Some 1,
            demo_pair2_delta := Some 1,
            demo_color_number := Some (ui_total_color_numbers demo_ui - 1),
            total_color_pairs := Some (ui_total_color_pairs demo_ui),
            demo_color_pair := Some (ui_total_color_pairs demo_ui - 1) \<rparr>)"
  using assms by (simp add: init_demo_color_def set_demo_color_def Let_def)

lemma run_fast_10_accepted:
  assumes "\<And>n r g b. init_color cs n r g b"
  shows "run_fast cs 10 (DemoProcess_init
          \<lparr> max_color_value := Some 999,
            min_color_value := Some 0,
            demo_red_value := Some 500,
            demo_green_value := Some 500,
            demo_blue_value := Some 500,
            demo_red_delta := Some 3,
            demo_green_delta := Some 6,
            demo_blue_delta := Some 9,
            demo_color_pair2 := Some 1,
            demo_pair2_delta := Some 1,
            demo_color_number := Some (ui_total_color_numbers demo_ui - 1),
            total_color_pairs := Some (ui_total_color_pairs demo_ui),
            demo_color_pair := Some (ui_total_color_pairs demo_ui - 1) \<rparr>) =
     Ok (DemoProcess_init
          \<lparr> max_color_value := Some 999,
            min_color_value := Some 0,
            demo_red_value := Some 530,
            demo_green_value := Some 560,
            demo_blue_value := Some 590,
            demo_red_delta := Some 3,
            demo_green_delta := Some 6,
            demo_blue_delta := Some 9,
            demo_color_pair2 := Some 1,
            demo_pair2_delta := Some 1,
            demo_color_number := Some (ui_total_color_numbers demo_ui - 1),
            total_color_pairs := Some (ui_total_color_pairs demo_ui),
            demo_color_pair := Some (ui_total_color_pairs demo_ui - 1),
            current_percent := Fin (9007199254740991 / 9007199254740992) \<rparr>)"
  using assms
  by (simp add: run_fast_body_def color_eval percent_eval del: float_add.simps)

text \<open>
  Claim C3, as stated: constructing the object and running the body of the fast task ten
  times, with nothing in between, computes percent and colour values.  This is false: the
  first body raises \<^verbatim>\<open>AttributeError\<close> in \<^verbatim>\<open>_update_color\<close>, because the constructor
  creates no channel values, and the loop is left with the object unchanged.
\<close>

theorem fast_task_after_construction_counterexample:
  "run_fast accepting 10 DemoProcess_init = Raise AttributeError DemoProcess_init"
  by (simp add: eval_nat_numeral run_fast_body_fresh)

text \<open>
  Claim C3, amended.  On a terminal that accepts the calls of the colour service:
  constructing the object, running \<^verbatim>\<open>_init_demo_color\<close> (as the display setup does) and
  then the body of the fast task ten times returns, and the result is fixed by the seeds:
  from 500 with steps 3, 6, 9 the channels are at 530, 560, 590 with the steps unchanged,
  and from \<^verbatim>\<open>0.0\<close> with step \<^verbatim>\<open>0.1\<close> the percentage is the binary64 number
  \<open>1 - 1 / 2 ^ 53\<close> (\<^verbatim>\<open>0.9999999999999999\<close>) with the step still \<^verbatim>\<open>0.1\<close>.
\<close>

theorem fast_task_ten_ticks:
  assumes "\<And>n r g b. init_color cs n r g b" and "\<And>p f b. init_pair cs p f b"
  shows "\<exists>s0 s10.
           init_demo_color cs demo_ui DemoProcess_init = Ok s0
           \<and> demo_red_value s0 = Some 500 \<and> demo_green_value s0 = Some 500
           \<and> demo_blue_value s0 = Some 500
           \<and> demo_red_delta s0 = Some 3 \<and> demo_green_delta s0 = Some 6
           \<and> demo_blue_delta s0 = Some 9
           \<and> current_percent s0 = float_literal 0 \<and> percent_delta s0 = float_literal (1 / 10)
           \<and> run_fast cs 10 s0 = Ok s10
           \<and> demo_red_value s10 = Some 530 \<and> demo_green_value s10 = Some 560
           \<and> demo_blue_value s10 = Some 590
           \<and> demo_red_delta s10 = Some 3 \<and> demo_green_delta s10 = Some 6
           \<and> demo_blue_delta s10 = Some 9
           \<and> current_percent s10 = Fin (1 - 1 / 2 ^ 53)
           \<and> percent_delta s10 = float_literal (1 / 10)"
proof -
  let ?s0 = "DemoProcess_init
          \<lparr> max_color_value := Some 999,
            min_color_value := Some 0,
            demo_red_value := Some 500,
            demo_green_value := Some 500,
            demo_blue_value := Some 500,
            demo_red_delta := Some 3,
            demo_green_delta := Some 6,
            demo_blue_delta := Some 9,
            demo_color_pair2 := Some 1,
            demo_pair2_delta := Some 1,
            demo_color_number := Some (ui_total_color_numbers demo_ui - 1),
            total_color_pairs := Some (ui_total_color_pairs demo_ui),
            demo_color_pair := Some (ui_total_color_pairs demo_ui - 1) \<rparr>"
  let ?s10 = "DemoProcess_init
          \<lparr> max_color_value := Some 999,
            min_color_value := Some 0,
            demo_red_value := Some 530,
            demo_green_value := Some 560,
            demo_blue_value := Some 590,
            demo_red_delta := Some 3,
            demo_green_delta := Some 6,
            demo_blue_delta := Some 9,
            demo_color_pair2 := Some 1,
            demo_pair2_delta := Some 1,
            demo_color_number := Some (ui_total_color_numbers demo_ui - 1),
            total_color_pairs := Some (ui_total_color_pairs demo_ui),
            demo_color_pair := Some (ui_total_color_pairs demo_ui - 1),
            current_percent := Fin (9007199254740991 / 9007199254740992) \<rparr>"
  have init_ok: "init_demo_color cs demo_ui DemoProcess_init = Ok ?s0"
    by (rule init_demo_color_accepted [OF assms])
  have ticks: "run_fast cs 10 ?s0 = Ok ?s10"
    by (rule run_fast_10_accepted [OF assms(1)])
  have seeds: "demo_red_value ?s0 = Some 500 \<and> demo_green_value ?s0 = Some 500
      \<and> demo_blue_value ?s0 = Some 500
      \<and> demo_red_delta ?s0 = Some 3 \<and> demo_green_delta ?s0 = Some 6
      \<and> demo_blue_delta ?s0 = Some 9
      \<and> current_percent ?s0 = float_literal 0 \<and> percent_delta ?s0 = float_literal (1 / 10)"
    by (simp add: DemoProcess_init_def float_literals)
  have result: "demo_red_value ?s10 = Some 530 \<and> demo_green_value ?s10 = Some 560
      \<and> demo_blue_value ?s10 = Some 590
      \<and> demo_red_delta ?s10 = Some 3 \<and> demo_green_delta ?s10 = Some 6
      \<and> demo_blue_delta ?s10 = Some 9
      \<and> current_percent ?s10 = Fin (1 - 1 / 2 ^ 53)
      \<and> percent_delta ?s10 = float_literal (1 / 10)"
    by (simp add: DemoProcess_init_def float_literals)
  show ?thesis
    apply (rule exI [of _ ?s0])
    apply (rule exI [of _ ?s10])
    using init_ok ticks seeds result apply blast
    done
qed

theorem fast_task_ten_ticks_witness:
  "(\<forall>n r g b. init_color accepting n r g b) \<and> (\<forall>p f b. init_pair accepting p f b)
   \<and> (\<exists>s0 s10.
           init_demo_color accepting demo_ui_256 DemoProcess_init = Ok s0
           \<and> demo_red_value s0 = Some 500 \<and> demo_green_value s0 = Some 500
           \<and> demo_blue_value s0 = Some 500
           \<and> demo_red_delta s0 = Some 3 \<and> demo_green_delta s0 = Some 6
           \<and> demo_blue_delta s0 = Some 9
           \<and> current_percent s0 = float_literal 0 \<and> percent_delta s0 = float_literal (1 / 10)
           \<and> run_fast accepting 10 s0 = Ok s10
           \<and> demo_red_value s10 = Some 530 \<and> demo_green_value s10 = Some 560
           \<and> demo_blue_value s10 = Some 590
           \<and> demo_red_delta s10 = Some 3 \<and> demo_green_delta s10 = Some 6
           \<and> demo_blue_delta s10 = Some 9
           \<and> current_percent s10 = Fin (1 - 1 / 2 ^ 53)
           \<and> percent_delta s10 = float_literal (1 / 10))"
proof -
  have color: "\<And>n r g b. init_color accepting n r g b"
    and pair: "\<And>p f b. init_pair accepting p f b"
    by (simp_all add: accepting_def)
  from color pair fast_task_ten_ticks [of accepting demo_ui_256, OF color pair]
  show ?thesis by blast
qed

lemma setup_accepted_256:
  "state_of (init_demo_color accepting demo_ui_256 DemoProcess_init) =
     DemoProcess_init
       \<lparr> max_color_value := Some 999, min_color_value := Some 0,
         demo_red_value := Some 500, demo_green_value := Some 500,
         demo_blue_value := Some 500,
         demo_red_delta := Some 3, demo_green_delta := Some 6, demo_blue_delta := Some 9,
         demo_color_pair2 := Some 1, demo_pair2_delta := Some 1,
         demo_color_number := Some 255,
         total_color_pairs := Some 256, demo_color_pair := Some 255 \<rparr>"
  by (simp add: init_demo_color_def set_demo_color_def accepting_def demo_ui_256_def Let_def)

lemma setup_rejected_256:
  "init_demo_color rejecting demo_ui_256 DemoProcess_init =
     Raise CursesError
      (DemoProcess_init
       \<lparr> max_color_value := Some 999, min_color_value := Some 0,
         demo_red_value := Some 500, demo_green_value := Some 500,
         demo_blue_value := Some 500,
         demo_red_delta := Some 3, demo_green_delta := Some 6, demo_blue_delta := Some 9,
         demo_color_pair2 := Some 1, demo_pair2_delta := Some 1,
         demo_color_number := Some 255 \<rparr>)"
  by (simp add: init_demo_color_def set_demo_color_def rejecting_def demo_ui_256_def Let_def)

text \<open>
  Claim C1 says that an error of the colour service during a colour update is caught and
  ignored, so that the body of the fast task completes.  The code has no handler (the source
  marks the raising call with a to-do note).  Evaluated for an object whose colour
  attributes are set up and a terminal that rejects \<^verbatim>\<open>curses.init_color\<close>: the first body
  raises the error after the three channels have moved, the percentage is not advanced,
  and the loop is left.  The same happens on the object that a set-up on the rejecting
  terminal itself leaves behind.
\<close>

theorem color_service_error_propagates:
  "run_fast_body rejecting (state_of (init_demo_color accepting demo_ui_256 DemoProcess_init))
     = Raise CursesError
         ((state_of (init_demo_color accepting demo_ui_256 DemoProcess_init))
            \<lparr>demo_red_value := Some 503, demo_green_value := Some 506,
             demo_blue_value := Some 509\<rparr>)
   \<and> current_percent
        (state_of (run_fast_body rejecting
           (state_of (init_demo_color accepting demo_ui_256 DemoProcess_init))))
       = current_percent DemoProcess_init
   \<and> run_fast rejecting 10 (state_of (init_demo_color accepting demo_ui_256 DemoProcess_init))
     = Raise CursesError
         ((state_of (init_demo_color accepting demo_ui_256 DemoProcess_init))
            \<lparr>demo_red_value := Some 503, demo_green_value := Some 506,
             demo_blue_value := Some 509\<rparr>)
   \<and> init_demo_color rejecting demo_ui_256 DemoProcess_init
     = Raise CursesError (state_of (init_demo_color rejecting demo_ui_256 DemoProcess_init))
   \<and> run_fast_body rejecting (state_of (init_demo_color rejecting demo_ui_256 DemoProcess_init))
     = Raise CursesError
         ((state_of (init_demo_color rejecting demo_ui_256 DemoProcess_init))
            \<lparr>demo_red_value := Some 503, demo_green_value := Some 506,
             demo_blue_value := Some 509\<rparr>)"
  by (simp only: setup_accepted_256 setup_rejected_256 state_of.simps)
    (simp add: eval_nat_numeral run_fast_body_def color_eval rejecting_def
       DemoProcess_init_def)

subsection \<open>The mode\<close>

lemma and_then_preserves:
  assumes "P (state_of x)" and "\<And>s. P s \<Longrightarrow> P (state_of (f s))"
  shows "P (state_of (and_then x f))"
  using assms by (cases x) simp_all

lemma mode_update_temperature: "mode (update_temperature s) = mode s"
  by (simp add: update_temperature_def Let_def)

lemma mode_update_percent: "mode (update_percent s) = mode s"
  by (simp add: update_percent_def Let_def)

lemma mode_update_state: "mode (fst (update_state choice (s, g))) = mode s"
  by (simp add: Let_def)

lemma mode_update_red: "mode (state_of (update_red s)) = mode s"
  by (simp add: update_red_def Let_def split: option.splits)

lemma mode_update_green: "mode (state_of (update_green s)) = mode s"
  by (simp add: update_green_def Let_def split: option.splits)

lemma mode_update_blue: "mode (state_of (update_blue s)) = mode s"
  by (simp add: update_blue_def Let_def split: option.splits)

lemma mode_update_color: "mode (state_of (update_color cs s)) = mode s"
proof -
  have last: "mode (state_of
      (case demo_red_value t of
         None \<Rightarrow> Raise AttributeError t
       | Some r \<Rightarrow>
           (case demo_green_value t of
              None \<Rightarrow> Raise AttributeError t
            | Some g \<Rightarrow>
                (case demo_blue_value t of
                   None \<Rightarrow> Raise AttributeError t
                 | Some b \<Rightarrow> set_demo_color cs r g b t)))) = mode t" for t
    by (simp add: state_of_set_demo_color split: option.splits)
  show ?thesis
    unfolding update_color_def
    apply (rule and_then_preserves [where P = "\<lambda>t. mode t = mode s"])
     apply (rule mode_update_red)
    apply (rule and_then_preserves [where P = "\<lambda>t. mode t = mode s"])
     apply (simp add: mode_update_green)
    apply (rule and_then_preserves [where P = "\<lambda>t. mode t = mode s"])
     apply (simp add: mode_update_blue)
    apply (simp only: last)
    done
qed

lemma mode_run_fast_body: "mode (state_of (run_fast_body cs s)) = mode s"
  unfolding run_fast_body_def
  by (rule and_then_preserves [where P = "\<lambda>t. mode t = mode s"])
    (simp_all add: mode_update_color mode_update_percent)

lemma mode_run_fast: "mode (state_of (run_fast cs n s)) = mode s"
proof (induction n arbitrary: s)
  case 0
  show ?case by simp
next
  case (Suc n)
  show ?case
    unfolding run_fast.simps
    by (rule and_then_preserves [where P = "\<lambda>t. mode t = mode s"])
      (simp_all add: mode_run_fast_body Suc.IH)
qed

lemma mode_run_slow_body: "mode (fst (state_of (run_slow_body cs choice sg))) = mode (fst sg)"
proof -
  obtain s g where sg: "sg = (s, g)" by (cases sg)
  define sg2 where "sg2 = update_state choice (update_temperature s, g)"
  have m2: "mode (fst sg2) = mode s"
    unfolding sg2_def by (simp only: mode_update_state mode_update_temperature)
  have "mode (state_of (update_color cs (fst sg2))) = mode s"
    by (simp only: mode_update_color m2)
  then show ?thesis
    by (cases "update_color cs (fst sg2)")
       (simp_all add: run_slow_body_def sg sg2_def [symmetric] Let_def del: update_state.simps)
qed

lemma mode_run_slow: "mode (fst (state_of (run_slow cs choice n sg))) = mode (fst sg)"
proof (induction n arbitrary: sg)
  case 0
  show ?case by simp
next
  case (Suc n)
  show ?case
    unfolding run_slow.simps
    by (rule and_then_preserves [where P = "\<lambda>t. mode (fst t) = mode (fst sg)"])
      (simp_all add: mode_run_slow_body Suc.IH)
qed

lemma DemoModes_list_full: "newmode \<in> set DemoModes_list"
  by (cases newmode) (simp_all add: DemoModes_list_def)

text \<open>
  Claim C7.  Neither periodic task touches the mode: whatever the object, the terminal, the
  random draws and the number of iterations, the mode of the object that \<^verbatim>\<open>run_fast\<close> or
  \<^verbatim>\<open>run_slow\<close> leaves (after the last iteration, or when an exception ends the loop) is the
  mode it started with, and the same holds for one body.  \<^verbatim>\<open>set_demo_mode\<close> stores the
  member it is given, and every value the field can hold is one of the four members of
  \<^verbatim>\<open>DemoModes\<close>.
\<close>

theorem mode_only_set_by_accessor:
  "mode (state_of (run_fast_body cs s)) = mode s
   \<and> mode (state_of (run_fast cs n s)) = mode s
   \<and> mode (fst (state_of (run_slow_body cs choice (s, g)))) = mode s
   \<and> mode (fst (state_of (run_slow cs choice n (s, g)))) = mode s
   \<and> mode (set_demo_mode newmode s) = newmode
   \<and> newmode \<in> set DemoModes_list
   \<and> mode (set_demo_mode newmode s) \<in> set DemoModes_list"
  using mode_run_fast_body [of cs s] mode_run_fast [of cs n s]
    mode_run_slow_body [of cs choice "(s, g)"] mode_run_slow [of cs choice n "(s, g)"]
    DemoModes_list_full [of newmode]
  by (simp add: set_demo_mode_def)

subsection \<open>The discrete state\<close>

lemma update_state_reselect:
  assumes "state_count s - 1 \<le> 0"
  shows "update_state choice (s, g) =
           (s\<lparr>state_count := state_delay s,
              current_state_name := DemoStates_name (fst (choice g DemoStates_list))\<rparr>,
            snd (choice g DemoStates_list))"
  using assms by (simp add: Let_def)

lemma update_state_wait:
  assumes "0 < state_count s - 1"
  shows "update_state choice (s, g) = (s\<lparr>state_count := state_count s - 1\<rparr>, g)"
  using assms by (simp add: Let_def)

lemma DemoStates_list_full: "set DemoStates_list = UNIV \<and> distinct DemoStates_list"
proof -
  have "x \<in> set DemoStates_list" for x
    by (cases x) (simp_all add: DemoStates_list_def)
  then show ?thesis by (auto simp add: DemoStates_list_def)
qed

lemma update_state_period_5:
  assumes "state_count s = 5" and "state_delay s = 5"
  shows "(update_state choice ^^ 1) (s, g) = (s\<lparr>state_count := 4\<rparr>, g)"
    and "(update_state choice ^^ 2) (s, g) = (s\<lparr>state_count := 3\<rparr>, g)"
    and "(update_state choice ^^ 3) (s, g) = (s\<lparr>state_count := 2\<rparr>, g)"
    and "(update_state choice ^^ 4) (s, g) = (s\<lparr>state_count := 1\<rparr>, g)"
    and "(update_state choice ^^ 5) (s, g) =
           (s\<lparr>state_count := 5,
              current_state_name := DemoStates_name (fst (choice g DemoStates_list))\<rparr>,
            snd (choice g DemoStates_list))"
  using assms by (simp_all add: eval_nat_numeral Let_def)

text \<open>
  Claim C6.  Every call of \<^verbatim>\<open>_update_state\<close> decrements the counter.  When the decremented
  counter is at or below zero, the same call resets it to the period \<^verbatim>\<open>_state_delay\<close> and
  sets the state name to the name of the member that \<^verbatim>\<open>random.choice\<close> draws from the list
  of all four members of \<^verbatim>\<open>DemoStates\<close> (any member, also the previous one: the draw is
  a parameter, its distribution is that of Python's generator).  When the decremented
  counter is positive, state name and generator are untouched.  With counter and period at
  5, the value the constructor sets, calls 1 to 4 only count down and call 5 draws and
  leaves the counter at 5.
\<close>

theorem state_tick:
  "(state_count s - 1 \<le> 0 \<longrightarrow>
      update_state choice (s, g) =
        (s\<lparr>state_count := state_delay s,
           current_state_name := DemoStates_name (fst (choice g DemoStates_list))\<rparr>,
         snd (choice g DemoStates_list)))
   \<and> (0 < state_count s - 1 \<longrightarrow>
      update_state choice (s, g) = (s\<lparr>state_count := state_count s - 1\<rparr>, g))
   \<and> set DemoStates_list = UNIV
   \<and> (state_count s = 5 \<and> state_delay s = 5 \<longrightarrow>
        (\<forall>k. 0 < k \<and> k < 5 \<longrightarrow>
           (update_state choice ^^ k) (s, g) = (s\<lparr>state_count := 5 - int k\<rparr>, g))
        \<and> (update_state choice ^^ 5) (s, g) =
            (s\<lparr>state_count := 5,
               current_state_name := DemoStates_name (fst (choice g DemoStates_list))\<rparr>,
             snd (choice g DemoStates_list)))"
proof -
  have period: "(\<forall>k. 0 < k \<and> k < 5 \<longrightarrow>
           (update_state choice ^^ k) (s, g) = (s\<lparr>state_count := 5 - int k\<rparr>, g))
        \<and> (update_state choice ^^ 5) (s, g) =
            (s\<lparr>state_count := 5,
               current_state_name := DemoStates_name (fst (choice g DemoStates_list))\<rparr>,
             snd (choice g DemoStates_list))"
    if five: "state_count s = 5 \<and> state_delay s = 5"
  proof (intro conjI allI impI)
    fix k :: nat
    assume "0 < k \<and> k < 5"
    then consider "k = 1" | "k = 2" | "k = 3" | "k = 4" by arith
    then show "(update_state choice ^^ k) (s, g) = (s\<lparr>state_count := 5 - int k\<rparr>, g)"
      using five update_state_period_5 (1-4) [of s choice g] by cases simp_all
  next
    from five show "(update_state choice ^^ 5) (s, g) =
            (s\<lparr>state_count := 5,
               current_state_name := DemoStates_name (fst (choice g DemoStates_list))\<rparr>,
             snd (choice g DemoStates_list))"
      by (simp only: update_state_period_5 (5))
  qed
  from update_state_reselect [of s choice g] update_state_wait [of s choice g]
    DemoStates_list_full period
  show ?thesis by blast
qed

theorem state_tick_witness:
  "state_count DemoProcess_init = 5 \<and> state_delay DemoProcess_init = 5
   \<and> (0::nat) < 3 \<and> (3::nat) < 5
   \<and> 0 < state_count DemoProcess_init - 1
   \<and> state_count (DemoProcess_init\<lparr>state_count := 1\<rparr>) - 1 \<le> 0
   \<and> update_state (\<lambda>g xs. (xs ! (g mod length xs), Suc g)) (DemoProcess_init, 2)
       = (DemoProcess_init\<lparr>state_count := state_count DemoProcess_init - 1\<rparr>, 2)
   \<and> (update_state (\<lambda>g xs. (xs ! (g mod length xs), Suc g)) ^^ 3) (DemoProcess_init, 2)
       = (DemoProcess_init\<lparr>state_count := 5 - int 3\<rparr>, 2)
   \<and> (update_state (\<lambda>g xs. (xs ! (g mod length xs), Suc g)) ^^ 5) (DemoProcess_init, 2)
       = (DemoProcess_init
            \<lparr>state_count := 5,
             current_state_name :=
               DemoStates_name (fst ((\<lambda>g xs. (xs ! (g mod length xs), Suc g)) 2 DemoStates_list))\<rparr>,
          snd ((\<lambda>g xs. (xs ! (g mod length xs), Suc g)) (2::nat) DemoStates_list))
   \<and> update_state (\<lambda>g xs. (xs ! (g mod length xs), Suc g))
         (DemoProcess_init\<lparr>state_count := 1\<rparr>, 2)
       = (DemoProcess_init\<lparr>state_count := 1\<rparr>
            \<lparr>state_count := state_delay (DemoProcess_init\<lparr>state_count := 1\<rparr>),
             current_state_name :=
               DemoStates_name (fst ((\<lambda>g xs. (xs ! (g mod length xs), Suc g)) 2 DemoStates_list))\<rparr>,
          snd ((\<lambda>g xs. (xs ! (g mod length xs), Suc g)) (2::nat) DemoStates_list))"
proof -
  have five: "state_count DemoProcess_init = 5 \<and> state_delay DemoProcess_init = 5"
    by (simp add: DemoProcess_init_def)
  have k: "(0::nat) < 3 \<and> (3::nat) < 5" by simp
  have waiting: "0 < state_count DemoProcess_init - 1"
    by (simp add: DemoProcess_init_def)
  have due: "state_count (DemoProcess_init\<lparr>state_count := 1\<rparr>) - 1 \<le> 0"
    by simp
  from five k waiting due
    state_tick [of DemoProcess_init "\<lambda>g xs. (xs ! (g mod length xs), Suc g)" "2::nat"]
    state_tick [of "DemoProcess_init\<lparr>state_count := 1\<rparr>"
      "\<lambda>g xs. (xs ! (g mod length xs), Suc g)" "2::nat"]
  show ?thesis by blast
qed

subsection \<open>The turning rule of the walks\<close>

lemma temperature_step:
  "current_temperature (update_temperature s) = current_temperature s + temperature_delta s
   \<and> temperature_delta (update_temperature s) =
       (if current_temperature s + temperature_delta s \<ge> max_temperature s
           \<or> current_temperature s + temperature_delta s \<le> min_temperature s
        then - temperature_delta s else temperature_delta s)"
  by (simp add: update_temperature_def Let_def)

lemma percent_step:
  "current_percent (update_percent s) = float_add (current_percent s) (percent_delta s)
   \<and> percent_delta (update_percent s) =
       (if float_ge (float_add (current_percent s) (percent_delta s)) (max_percent s)
           \<or> float_le (float_add (current_percent s) (percent_delta s)) (min_percent s)
        then float_neg (percent_delta s) else percent_delta s)"
  by (simp add: update_percent_def Let_def)

lemma temperature_overshoot_bound:
  assumes "min_temperature s \<le> current_temperature s \<and> current_temperature s \<le> max_temperature s"
  shows "current_temperature (update_temperature s) \<le> max_temperature s + \<bar>temperature_delta s\<bar>
     \<and> min_temperature s - \<bar>temperature_delta s\<bar> \<le> current_temperature (update_temperature s)"
proof -
  have "current_temperature (update_temperature s) = current_temperature s + temperature_delta s"
    by (simp add: update_temperature_def Let_def)
  with assms show ?thesis by arith
qed

lemma blue_overshoot:
  "((\<lambda>x. and_then x (update_color accepting)) ^^ 55)
      (Ok (state_of (init_demo_color accepting demo_ui_256 DemoProcess_init))) =
   Ok ((state_of (init_demo_color accepting demo_ui_256 DemoProcess_init))
        \<lparr>demo_red_value := Some 665, demo_green_value := Some 830, demo_blue_value := Some 995\<rparr>)"
  "((\<lambda>x. and_then x (update_color accepting)) ^^ 56)
      (Ok (state_of (init_demo_color accepting demo_ui_256 DemoProcess_init))) =
   Ok ((state_of (init_demo_color accepting demo_ui_256 DemoProcess_init))
        \<lparr>demo_red_value := Some 668, demo_green_value := Some 836, demo_blue_value := Some 1004,
         demo_blue_delta := Some (- 9)\<rparr>)"
  "((\<lambda>x. and_then x (update_color accepting)) ^^ 57)
      (Ok (state_of (init_demo_color accepting demo_ui_256 DemoProcess_init))) =
   Ok ((state_of (init_demo_color accepting demo_ui_256 DemoProcess_init))
        \<lparr>demo_red_value := Some 671, demo_green_value := Some 842, demo_blue_value := Some 995,
         demo_blue_delta := Some (- 9)\<rparr>)"
  by (simp_all only: setup_accepted_256)
     (simp_all add: eval_nat_numeral color_eval accepting_def DemoProcess_init_def)

text \<open>
  Claim C5.  For an arbitrary object, so at every call of every sequence of calls:
  \<^verbatim>\<open>_update_temperature\<close>, \<^verbatim>\<open>_update_percent\<close> and each channel of \<^verbatim>\<open>_update_color\<close> add
  the step to the current value and store the sum unclamped, and the step changes sign in
  that call when the sum is at or above the ceiling or at or below the floor, and in no
  other case.  (For the colour channels the attributes must exist; the object is the one
  the method leaves, also when the colour service raises afterwards.)  A value that was
  within its limits before the call is after it at most the magnitude of the step past a
  limit.  This does happen: from 500 with step 9 the blue channel is at 995 after 55
  updates, at 1004, past the ceiling 999, after the 56th, which reverses the step, and back
  at 995 after the 57th.
\<close>

theorem step_flips_exactly_at_limits:
  "current_temperature (update_temperature s) = current_temperature s + temperature_delta s
   \<and> temperature_delta (update_temperature s) =
       (if current_temperature s + temperature_delta s \<ge> max_temperature s
           \<or> current_temperature s + temperature_delta s \<le> min_temperature s
        then - temperature_delta s else temperature_delta s)
   \<and> current_percent (update_percent s) = float_add (current_percent s) (percent_delta s)
   \<and> percent_delta (update_percent s) =
       (if float_ge (float_add (current_percent s) (percent_delta s)) (max_percent s)
           \<or> float_le (float_add (current_percent s) (percent_delta s)) (min_percent s)
        then float_neg (percent_delta s) else percent_delta s)
   \<and> (demo_red_value s = Some r \<and> demo_red_delta s = Some dr
       \<and> demo_green_value s = Some g \<and> demo_green_delta s = Some dg
       \<and> demo_blue_value s = Some b \<and> demo_blue_delta s = Some db
       \<and> max_color_value s = Some mx \<and> min_color_value s = Some mn \<longrightarrow>
         demo_red_value (state_of (update_color cs s)) = Some (r + dr)
         \<and> demo_red_delta (state_of (update_color cs s)) =
             Some (if r + dr \<ge> mx \<or> r + dr \<le> mn then - dr else dr)
         \<and> demo_green_value (state_of (update_color cs s)) = Some (g + dg)
         \<and> demo_green_delta (state_of (update_color cs s)) =
             Some (if g + dg \<ge> mx \<or> g + dg \<le> mn then - dg else dg)
         \<and> demo_blue_value (state_of (update_color cs s)) = Some (b + db)
         \<and> demo_blue_delta (state_of (update_color cs s)) =
             Some (if b + db \<ge> mx \<or> b + db \<le> mn then - db else db))
   \<and> (min_temperature s \<le> current_temperature s \<and> current_temperature s \<le> max_temperature s \<longrightarrow>
         current_temperature (update_temperature s) \<le> max_temperature s + \<bar>temperature_delta s\<bar>
         \<and> min_temperature s - \<bar>temperature_delta s\<bar> \<le> current_temperature (update_temperature s))
   \<and> (demo_blue_value s = Some b \<and> demo_blue_delta s = Some db
       \<and> demo_red_value s = Some r \<and> demo_red_delta s = Some dr
       \<and> demo_green_value s = Some g \<and> demo_green_delta s = Some dg
       \<and> max_color_value s = Some mx \<and> min_color_value s = Some mn
       \<and> mn \<le> b \<and> b \<le> mx \<longrightarrow>
         demo_blue_value (state_of (update_color cs s)) = Some (b + db)
         \<and> b + db \<le> mx + \<bar>db\<bar> \<and> mn - \<bar>db\<bar> \<le> b + db)
   \<and> demo_blue_value (state_of (((\<lambda>x. and_then x (update_color accepting)) ^^ 55)
         (Ok (state_of (init_demo_color accepting demo_ui_256 DemoProcess_init))))) = Some 995
   \<and> demo_blue_value (state_of (((\<lambda>x. and_then x (update_color accepting)) ^^ 56)
         (Ok (state_of (init_demo_color accepting demo_ui_256 DemoProcess_init))))) = Some 1004
   \<and> demo_blue_delta (state_of (((\<lambda>x. and_then x (update_color accepting)) ^^ 56)
         (Ok (state_of (init_demo_color accepting demo_ui_256 DemoProcess_init))))) = Some (- 9)
   \<and> demo_blue_value (state_of (((\<lambda>x. and_then x (update_color accepting)) ^^ 57)
         (Ok (state_of (init_demo_color accepting demo_ui_256 DemoProcess_init))))) = Some 995"
proof -
  have channels: "demo_red_value (state_of (update_color cs s)) = Some (r + dr)
         \<and> demo_red_delta (state_of (update_color cs s)) =
             Some (if r + dr \<ge> mx \<or> r + dr \<le> mn then - dr else dr)
         \<and> demo_green_value (state_of (update_color cs s)) = Some (g + dg)
         \<and> demo_green_delta (state_of (update_color cs s)) =
             Some (if g + dg \<ge> mx \<or> g + dg \<le> mn then - dg else dg)
         \<and> demo_blue_value (state_of (update_color cs s)) = Some (b + db)
         \<and> demo_blue_delta (state_of (update_color cs s)) =
             Some (if b + db \<ge> mx \<or> b + db \<le> mn then - db else db)"
    if "demo_red_value s = Some r \<and> demo_red_delta s = Some dr
       \<and> demo_green_value s = Some g \<and> demo_green_delta s = Some dg
       \<and> demo_blue_value s = Some b \<and> demo_blue_delta s = Some db
       \<and> max_color_value s = Some mx \<and> min_color_value s = Some mn"
    using that by (simp add: update_color_Some [of s r dr g dg b db mx mn cs])
  have blue_bound: "demo_blue_value (state_of (update_color cs s)) = Some (b + db)
         \<and> b + db \<le> mx + \<bar>db\<bar> \<and> mn - \<bar>db\<bar> \<le> b + db"
    if "demo_blue_value s = Some b \<and> demo_blue_delta s = Some db
       \<and> demo_red_value s = Some r \<and> demo_red_delta s = Some dr
       \<and> demo_green_value s = Some g \<and> demo_green_delta s = Some dg
       \<and> max_color_value s = Some mx \<and> min_color_value s = Some mn
       \<and> mn \<le> b \<and> b \<le> mx"
  proof -
    from that have "demo_blue_value (state_of (update_color cs s)) = Some (b + db)"
      by (simp add: update_color_Some [of s r dr g dg b db mx mn cs])
    moreover from that have "b + db \<le> mx + \<bar>db\<bar> \<and> mn - \<bar>db\<bar> \<le> b + db" by arith
    ultimately show ?thesis by blast
  qed
  have overshoot:
    "demo_blue_value (state_of (((\<lambda>x. and_then x (update_color accepting)) ^^ 55)
         (Ok (state_of (init_demo_color accepting demo_ui_256 DemoProcess_init))))) = Some 995
     \<and> demo_blue_value (state_of (((\<lambda>x. and_then x (update_color accepting)) ^^ 56)
         (Ok (state_of (init_demo_color accepting demo_ui_256 DemoProcess_init))))) = Some 1004
     \<and> demo_blue_delta (state_of (((\<lambda>x. and_then x (update_color accepting)) ^^ 56)
         (Ok (state_of (init_demo_color accepting demo_ui_256 DemoProcess_init))))) = Some (- 9)
     \<and> demo_blue_value (state_of (((\<lambda>x. and_then x (update_color accepting)) ^^ 57)
         (Ok (state_of (init_demo_color accepting demo_ui_256 DemoProcess_init))))) = Some 995"
    by (simp only: blue_overshoot) simp
  from temperature_step [of s] percent_step [of s] channels
    temperature_overshoot_bound [of s] blue_bound overshoot
  show ?thesis by blast
qed

theorem step_flips_exactly_at_limits_witness:
  "(demo_red_value (state_of (init_demo_color accepting demo_ui_256 DemoProcess_init)) = Some 500 \<and> demo_red_delta (state_of (init_demo_color accepting demo_ui_256 DemoProcess_init)) = Some 3
    \<and> demo_green_value (state_of (init_demo_color accepting demo_ui_256 DemoProcess_init)) = Some 500 \<and> demo_green_delta (state_of (init_demo_color accepting demo_ui_256 DemoProcess_init)) = Some 6
    \<and> demo_blue_value (state_of (init_demo_color accepting demo_ui_256 DemoProcess_init)) = Some 500 \<and> demo_blue_delta (state_of (init_demo_color accepting demo_ui_256 DemoProcess_init)) = Some 9
    \<and> max_color_value (state_of (init_demo_color accepting demo_ui_256 DemoProcess_init)) = Some 999 \<and> min_color_value (state_of (init_demo_color accepting demo_ui_256 DemoProcess_init)) = Some 0)
   \<and> (min_temperature (state_of (init_demo_color accepting demo_ui_256 DemoProcess_init)) \<le> current_temperature (state_of (init_demo_color accepting demo_ui_256 DemoProcess_init))
       \<and> current_temperature (state_of (init_demo_color accepting demo_ui_256 DemoProcess_init)) \<le> max_temperature (state_of (init_demo_color accepting demo_ui_256 DemoProcess_init)))
   \<and> (demo_blue_value (state_of (init_demo_color accepting demo_ui_256 DemoProcess_init)) = Some 500 \<and> demo_blue_delta (state_of (init_demo_color accepting demo_ui_256 DemoProcess_init)) = Some 9
       \<and> demo_red_value (state_of (init_demo_color accepting demo_ui_256 DemoProcess_init)) = Some 500 \<and> demo_red_delta (state_of (init_demo_color accepting demo_ui_256 DemoProcess_init)) = Some 3
       \<and> demo_green_value (state_of (init_demo_color accepting demo_ui_256 DemoProcess_init)) = Some 500 \<and> demo_green_delta (state_of (init_demo_color accepting demo_ui_256 DemoProcess_init)) = Some 6
       \<and> max_color_value (state_of (init_demo_color accepting demo_ui_256 DemoProcess_init)) = Some 999 \<and> min_color_value (state_of (init_demo_color accepting demo_ui_256 DemoProcess_init)) = Some 0
       \<and> (0::int) \<le> 500 \<and> (500::int) \<le> 999)
   \<and> demo_red_value (state_of (update_color accepting (state_of (init_demo_color accepting demo_ui_256 DemoProcess_init)))) = Some (500 + 3)
   \<and> demo_red_delta (state_of (update_color accepting (state_of (init_demo_color accepting demo_ui_256 DemoProcess_init)))) =
        Some (if (500::int) + 3 \<ge> 999 \<or> (500::int) + 3 \<le> 0 then - 3 else 3)
   \<and> demo_green_value (state_of (update_color accepting (state_of (init_demo_color accepting demo_ui_256 DemoProcess_init)))) = Some (500 + 6)
   \<and> demo_blue_value (state_of (update_color accepting (state_of (init_demo_color accepting demo_ui_256 DemoProcess_init)))) = Some (500 + 9)
   \<and> current_temperature (update_temperature (state_of (init_demo_color accepting demo_ui_256 DemoProcess_init)))
        \<le> max_temperature (state_of (init_demo_color accepting demo_ui_256 DemoProcess_init)) + \<bar>temperature_delta (state_of (init_demo_color accepting demo_ui_256 DemoProcess_init))\<bar>
   \<and> min_temperature (state_of (init_demo_color accepting demo_ui_256 DemoProcess_init)) - \<bar>temperature_delta (state_of (init_demo_color accepting demo_ui_256 DemoProcess_init))\<bar>
        \<le> current_temperature (update_temperature (state_of (init_demo_color accepting demo_ui_256 DemoProcess_init)))
   \<and> (500::int) + 9 \<le> 999 + \<bar>9\<bar>"
proof -
  have channels: "demo_red_value (state_of (init_demo_color accepting demo_ui_256 DemoProcess_init)) = Some 500 \<and> demo_red_delta (state_of (init_demo_color accepting demo_ui_256 DemoProcess_init)) = Some 3
    \<and> demo_green_value (state_of (init_demo_color accepting demo_ui_256 DemoProcess_init)) = Some 500 \<and> demo_green_delta (state_of (init_demo_color accepting demo_ui_256 DemoProcess_init)) = Some 6
    \<and> demo_blue_value (state_of (init_demo_color accepting demo_ui_256 DemoProcess_init)) = Some 500 \<and> demo_blue_delta (state_of (init_demo_color accepting demo_ui_256 DemoProcess_init)) = Some 9
    \<and> max_color_value (state_of (init_demo_color accepting demo_ui_256 DemoProcess_init)) = Some 999 \<and> min_color_value (state_of (init_demo_color accepting demo_ui_256 DemoProcess_init)) = Some 0"
    by (simp add: setup_accepted_256)
  have within: "min_temperature (state_of (init_demo_color accepting demo_ui_256 DemoProcess_init)) \<le> current_temperature (state_of (init_demo_color accepting demo_ui_256 DemoProcess_init))
       \<and> current_temperature (state_of (init_demo_color accepting demo_ui_256 DemoProcess_init)) \<le> max_temperature (state_of (init_demo_color accepting demo_ui_256 DemoProcess_init))"
    by (simp only: setup_accepted_256) (simp add: DemoProcess_init_def)
  have blue: "demo_blue_value (state_of (init_demo_color accepting demo_ui_256 DemoProcess_init)) = Some 500 \<and> demo_blue_delta (state_of (init_demo_color accepting demo_ui_256 DemoProcess_init)) = Some 9
       \<and> demo_red_value (state_of (init_demo_color accepting demo_ui_256 DemoProcess_init)) = Some 500 \<and> demo_red_delta (state_of (init_demo_color accepting demo_ui_256 DemoProcess_init)) = Some 3
       \<and> demo_green_value (state_of (init_demo_color accepting demo_ui_256 DemoProcess_init)) = Some 500 \<and> demo_green_delta (state_of (init_demo_color accepting demo_ui_256 DemoProcess_init)) = Some 6
       \<and> max_color_value (state_of (init_demo_color accepting demo_ui_256 DemoProcess_init)) = Some 999 \<and> min_color_value (state_of (init_demo_color accepting demo_ui_256 DemoProcess_init)) = Some 0
       \<and> (0::int) \<le> 500 \<and> (500::int) \<le> 999"
    using channels by simp
  from channels within blue
    step_flips_exactly_at_limits
      [where s = "state_of (init_demo_color accepting demo_ui_256 DemoProcess_init)"
         and r = 500 and dr = 3 and g = 500 and dg = 6 and b = 500 and db = 9
         and mx = 999 and mn = 0 and cs = accepting]
  show ?thesis by blast
qed

subsection \<open>The accessors\<close>

lemma limit_setters_frame:
  "max_temperature (set_demo_max_temperature tmax s) = tmax
   \<and> (set_demo_max_temperature tmax s)\<lparr>max_temperature := max_temperature s\<rparr> = s
   \<and> min_temperature (set_demo_min_temperature tmin s) = tmin
   \<and> (set_demo_min_temperature tmin s)\<lparr>min_temperature := min_temperature s\<rparr> = s
   \<and> max_percent (set_demo_max_percent pmax s) = pmax
   \<and> (set_demo_max_percent pmax s)\<lparr>max_percent := max_percent s\<rparr> = s
   \<and> min_percent (set_demo_min_percent pmin s) = pmin
   \<and> (set_demo_min_percent pmin s)\<lparr>min_percent := min_percent s\<rparr> = s"
  by (simp add: set_demo_max_temperature_def set_demo_min_temperature_def
        set_demo_max_percent_def set_demo_min_percent_def)

lemma limit_setters_current:
  "current_temperature (set_demo_max_temperature tmax s) = current_temperature s
   \<and> temperature_delta (set_demo_max_temperature tmax s) = temperature_delta s
   \<and> min_temperature (set_demo_max_temperature tmax s) = min_temperature s
   \<and> current_temperature (set_demo_min_temperature tmin s) = current_temperature s
   \<and> temperature_delta (set_demo_min_temperature tmin s) = temperature_delta s
   \<and> max_temperature (set_demo_min_temperature tmin s) = max_temperature s
   \<and> current_percent (set_demo_max_percent pmax s) = current_percent s
   \<and> percent_delta (set_demo_max_percent pmax s) = percent_delta s
   \<and> min_percent (set_demo_max_percent pmax s) = min_percent s
   \<and> current_percent (set_demo_min_percent pmin s) = current_percent s
   \<and> percent_delta (set_demo_min_percent pmin s) = percent_delta s
   \<and> max_percent (set_demo_min_percent pmin s) = max_percent s"
  by (simp add: set_demo_max_temperature_def set_demo_min_temperature_def
        set_demo_max_percent_def set_demo_min_percent_def)

lemma limit_setter_excluding_current:
  "current_temperature (set_demo_max_temperature 15 DemoProcess_init) = 20
   \<and> max_temperature (set_demo_max_temperature 15 DemoProcess_init) = 15"
  by (simp add: set_demo_max_temperature_def DemoProcess_init_def)

text \<open>
  Claim C8.  Each of \<^verbatim>\<open>set_demo_max_temperature\<close>, \<^verbatim>\<open>set_demo_min_temperature\<close>,
  \<^verbatim>\<open>set_demo_max_percent\<close>, \<^verbatim>\<open>set_demo_min_percent\<close> stores the value it is given in its
  own limit and changes nothing else: putting the old limit back gives the object it was
  called on.  In particular the current value, the step and the other limit of the walk
  are as before, whatever the new limit is; a ceiling of 15 given to the fresh object leaves
  its temperature at 20.
\<close>

theorem limit_setters_touch_only_their_limit:
  "max_temperature (set_demo_max_temperature tmax s) = tmax
   \<and> (set_demo_max_temperature tmax s)\<lparr>max_temperature := max_temperature s\<rparr> = s
   \<and> min_temperature (set_demo_min_temperature tmin s) = tmin
   \<and> (set_demo_min_temperature tmin s)\<lparr>min_temperature := min_temperature s\<rparr> = s
   \<and> max_percent (set_demo_max_percent pmax s) = pmax
   \<and> (set_demo_max_percent pmax s)\<lparr>max_percent := max_percent s\<rparr> = s
   \<and> min_percent (set_demo_min_percent pmin s) = pmin
   \<and> (set_demo_min_percent pmin s)\<lparr>min_percent := min_percent s\<rparr> = s
   \<and> current_temperature (set_demo_max_temperature tmax s) = current_temperature s
   \<and> temperature_delta (set_demo_max_temperature tmax s) = temperature_delta s
   \<and> min_temperature (set_demo_max_temperature tmax s) = min_temperature s
   \<and> current_temperature (set_demo_min_temperature tmin s) = current_temperature s
   \<and> temperature_delta (set_demo_min_temperature tmin s) = temperature_delta s
   \<and> max_temperature (set_demo_min_temperature tmin s) = max_temperature s
   \<and> current_percent (set_demo_max_percent pmax s) = current_percent s
   \<and> percent_delta (set_demo_max_percent pmax s) = percent_delta s
   \<and> min_percent (set_demo_max_percent pmax s) = min_percent s
   \<and> current_percent (set_demo_min_percent pmin s) = current_percent s
   \<and> percent_delta (set_demo_min_percent pmin s) = percent_delta s
   \<and> max_percent (set_demo_min_percent pmin s) = max_percent s
   \<and> current_temperature (set_demo_max_temperature 15 DemoProcess_init) = 20
   \<and> max_temperature (set_demo_max_temperature 15 DemoProcess_init) = 15"
  using limit_setters_frame [of tmax s tmin pmax pmin]
    limit_setters_current [of tmax s tmin pmax pmin] limit_setter_excluding_current
  by blast

lemma read_accessors_state:
  "snd (get_demo_temperature_text s) = s
   \<and> snd (get_demo_percent_text ft s) = s
   \<and> snd (get_demo_state_text s) = s
   \<and> snd (get_demo_mode_text s) = s
   \<and> snd (get_demo_mode_value s) = s
   \<and> snd (get_demo_color_text s) = s
   \<and> snd (get_demo_tmax_text s) = s
   \<and> snd (get_demo_tmin_text s) = s
   \<and> snd (get_demo_pmax_text ft s) = s
   \<and> snd (get_demo_pmin_text ft s) = s"
  by (simp add: get_demo_temperature_text_def get_demo_percent_text_def
        get_demo_state_text_def get_demo_mode_text_def get_demo_mode_value_def
        get_demo_color_text_def get_demo_tmax_text_def get_demo_tmin_text_def
        get_demo_pmax_text_def get_demo_pmin_text_def Let_def split: option.splits)

lemma read_accessors_reply:
  "fst (get_demo_temperature_text s) = Returns (''Current Temp: '' @ str_int (current_temperature s))
   \<and> fst (get_demo_percent_text ft s) = Returns (''Percent: '' @ format_2f ft (current_percent s))
   \<and> fst (get_demo_state_text s) = Returns (''Current State: '' @ current_state_name s)
   \<and> fst (get_demo_mode_text s) = Returns (''Current Mode: '' @ DemoModes_name (mode s))
   \<and> fst (get_demo_mode_value s) = Returns (DemoModes_value (mode s))
   \<and> fst (get_demo_color_text s) =
       (case (demo_red_value s, demo_green_value s, demo_blue_value s) of
          (Some r, Some g, Some b) \<Rightarrow>
            Returns (''Color: R:'' @ str_int r @ '' G:'' @ str_int g @ '' B:'' @ str_int b)
        | _ \<Rightarrow> Raises AttributeError)
   \<and> fst (get_demo_tmax_text s) = Returns (''Max Temperature: '' @ str_int (max_temperature s))
   \<and> fst (get_demo_tmin_text s) = Returns (''Min Temperature: '' @ str_int (min_temperature s))
   \<and> fst (get_demo_pmax_text ft s) = Returns (''Max Percent: '' @ float_str ft (max_percent s))
   \<and> fst (get_demo_pmin_text ft s) = Returns (''Min Percent: '' @ float_str ft (min_percent s))"
  by (simp add: get_demo_temperature_text_def get_demo_percent_text_def
        get_demo_state_text_def get_demo_mode_text_def get_demo_mode_value_def
        get_demo_color_text_def get_demo_tmax_text_def get_demo_tmin_text_def
        get_demo_pmax_text_def get_demo_pmin_text_def Let_def split: option.splits)

lemma read_accessors_examples:
  "fst (get_demo_temperature_text DemoProcess_init) = Returns ''Current Temp: 20''
   \<and> fst (get_demo_state_text DemoProcess_init) = Returns ''Current State: Disconnected''
   \<and> fst (get_demo_mode_text DemoProcess_init) = Returns ''Current Mode: Disabled''
   \<and> fst (get_demo_tmax_text DemoProcess_init) = Returns ''Max Temperature: 30''
   \<and> fst (get_demo_tmin_text DemoProcess_init) = Returns ''Min Temperature: 10''
   \<and> fst (get_demo_color_text DemoProcess_init) = Raises AttributeError
   \<and> fst (get_demo_color_text (state_of (init_demo_color cs demo_ui DemoProcess_init)))
       = Returns ''Color: R:500 G:500 B:500''"
  by (simp add: get_demo_temperature_text_def get_demo_state_text_def get_demo_mode_text_def
       get_demo_tmax_text_def get_demo_tmin_text_def
       get_demo_color_text_def init_demo_color_def set_demo_color_def Let_def
       DemoProcess_init_def str_int_def)

text \<open>
  Claim C9.  Every read accessor that feeds a display field (temperature, percent, state,
  mode, colour and the four limits, and the accessor of the mode's integer value) leaves
  the object exactly as it was, and its reply is a fixed function of the attribute it shows
  as it is at the call: a constant label followed by the formatted value.  The colour text
  needs the three channel values; where they do not exist yet the accessor raises
  \<^verbatim>\<open>AttributeError\<close>, still without changing the object.  On the fresh object the replies
  are \<^verbatim>\<open>Current Temp: 20\<close>, \<^verbatim>\<open>Current State: Disconnected\<close>, \<^verbatim>\<open>Current Mode: Disabled\<close>,
  \<^verbatim>\<open>Max Temperature: 30\<close>, \<^verbatim>\<open>Min Temperature: 10\<close>, and after the colour set-up
  \<^verbatim>\<open>Color: R:500 G:500 B:500\<close>.
\<close>

theorem read_accessors_pure:
  "snd (get_demo_temperature_text s) = s
   \<and> snd (get_demo_percent_text ft s) = s
   \<and> snd (get_demo_state_text s) = s
   \<and> snd (get_demo_mode_text s) = s
   \<and> snd (get_demo_mode_value s) = s
   \<and> snd (get_demo_color_text s) = s
   \<and> snd (get_demo_tmax_text s) = s
   \<and> snd (get_demo_tmin_text s) = s
   \<and> snd (get_demo_pmax_text ft s) = s
   \<and> snd (get_demo_pmin_text ft s) = s
   \<and> fst (get_demo_temperature_text s) = Returns (''Current Temp: '' @ str_int (current_temperature s))
   \<and> fst (get_demo_percent_text ft s) = Returns (''Percent: '' @ format_2f ft (current_percent s))
   \<and> fst (get_demo_state_text s) = Returns (''Current State: '' @ current_state_name s)
   \<and> fst (get_demo_mode_text s) = Returns (''Current Mode: '' @ DemoModes_name (mode s))
   \<and> fst (get_demo_mode_value s) = Returns (DemoModes_value (mode s))
   \<and> fst (get_demo_color_text s) =
       (case (demo_red_value s, demo_green_value s, demo_blue_value s) of
          (Some r, Some g, Some b) \<Rightarrow>
            Returns (''Color: R:'' @ str_int r @ '' G:'' @ str_int g @ '' B:'' @ str_int b)
        | _ \<Rightarrow> Raises AttributeError)
   \<and> fst (get_demo_tmax_text s) = Returns (''Max Temperature: '' @ str_int (max_temperature s))
   \<and> fst (get_demo_tmin_text s) = Returns (''Min Temperature: '' @ str_int (min_temperature s))
   \<and> fst (get_demo_pmax_text ft s) = Returns (''Max Percent: '' @ float_str ft (max_percent s))
   \<and> fst (get_demo_pmin_text ft s) = Returns (''Min Percent: '' @ float_str ft (min_percent s))
   \<and> fst (get_demo_temperature_text DemoProcess_init) = Returns ''Current Temp: 20''
   \<and> fst (get_demo_state_text DemoProcess_init) = Returns ''Current State: Disconnected''
   \<and> fst (get_demo_mode_text DemoProcess_init) = Returns ''Current Mode: Disabled''
   \<and> fst (get_demo_tmax_text DemoProcess_init) = Returns ''Max Temperature: 30''
   \<and> fst (get_demo_tmin_text DemoProcess_init) = Returns ''Min Temperature: 10''
   \<and> fst (get_demo_color_text DemoProcess_init) = Raises AttributeError
   \<and> fst (get_demo_color_text (state_of (init_demo_color cs demo_ui DemoProcess_init)))
       = Returns ''Color: R:500 G:500 B:500''"
  using read_accessors_state [of s ft] read_accessors_reply [of s ft]
    read_accessors_examples [of cs demo_ui]
  by blast

end
